theory Spec2Isabelle
  imports Complex_Main
begin

section \<open>Canonical data\<close>

text \<open>
  Prices and sizes are Python \<open>Decimal\<close> values built from the wire text. They are exact,
  and two decimals are the same dictionary key when they are numerically equal, so a
  decimal is modelled by the rational number it denotes. Offsets are Python integers.
  The constants \<open>BID\<close>, \<open>ASK\<close>, \<open>BUY\<close> and \<open>SELL\<close> of \<open>cryptofeed.defines\<close> are the
  constructors of two datatypes.
\<close>

type_synonym decimal = rat
type_synonym symbol = string
type_synonym level = "decimal \<times> decimal"
type_synonym levels = "decimal \<rightharpoonup> decimal"
type_synonym ledger = "decimal \<rightharpoonup> int"

datatype side = BID | ASK

datatype trade_side = BUY | SELL

datatype error = KeyError | UnsupportedSymbol | ValueError

text \<open>
  Modelled from the spec: the class \<open>OrderBook\<close> of \<open>cryptofeed.types\<close> is not among the
  sources. The spec gives a book as two mappings from price to size, one per side, and
  leaves the depth cap to whoever renders the book, so \<open>max_depth\<close> is not part of the
  state that the handlers reconcile. \<open>book_side\<close> reads \<open>book[side]\<close> and \<open>set_book_side\<close>
  replaces it.
\<close>

record order_book =
  bids :: levels
  asks :: levels

definition OrderBook :: order_book where
  "OrderBook = \<lparr>bids = Map.empty, asks = Map.empty\<rparr>"

fun book_side :: "side \<Rightarrow> order_book \<Rightarrow> levels" where
  "book_side BID ob = bids ob"
| "book_side ASK ob = asks ob"

fun set_book_side :: "side \<Rightarrow> levels \<Rightarrow> order_book \<Rightarrow> order_book" where
  "set_book_side BID m ob = ob\<lparr>bids := m\<rparr>"
| "set_book_side ASK m ob = ob\<lparr>asks := m\<rparr>"

text \<open>
  The dictionary \<open>delta = {BID: [], ASK: []}\<close> has exactly two keys, so it is a record of
  two lists; \<open>delta_append\<close> is \<open>delta[side].append(x)\<close>.
\<close>

record book_delta =
  delta_bid :: "level list"
  delta_ask :: "level list"

definition empty_delta :: book_delta where
  "empty_delta = \<lparr>delta_bid = [], delta_ask = []\<rparr>"

fun delta_side :: "side \<Rightarrow> book_delta \<Rightarrow> level list" where
  "delta_side BID d = delta_bid d"
| "delta_side ASK d = delta_ask d"

fun delta_append :: "side \<Rightarrow> level \<Rightarrow> book_delta \<Rightarrow> book_delta" where
  "delta_append BID x d = d\<lparr>delta_bid := delta_bid d @ [x]\<rparr>"
| "delta_append ASK x d = d\<lparr>delta_ask := delta_ask d @ [x]\<rparr>"

text \<open>
  One call of \<open>book_callback(L2_BOOK, book, timestamp, delta=..., raw=msg)\<close> is one
  \<open>book_event\<close>: the symbol, the book as it is when the callback runs, and the delta
  argument. The receipt timestamp and the raw message are passed through untouched and are
  left out.
\<close>

record book_event =
  be_symbol :: symbol
  be_book :: order_book
  be_delta :: "book_delta option"

section \<open>The dYdX adapter\<close>

subsection \<open>State and messages\<close>

record dydx =
  l2_book :: "symbol \<rightharpoonup> order_book"
  offsets :: "symbol \<rightharpoonup> ledger"

record snapshot_entry =
  se_price :: decimal
  se_offset :: int
  se_size :: decimal

text \<open>
  A decoded message of the book channel. \<open>Channel_data id offset bids asks\<close> is a message
  whose \<open>type\<close> is \<open>channel_data\<close>: its contents hold one offset and two lists of
  \<open>[price, size]\<close> pairs. \<open>Snapshot id items\<close> is a message of any other type (the handler
  sends only \<open>subscribed\<close> there): its contents are a dictionary, given by its items in
  order, from a side name to a list of entries with a price, an offset and a size.
\<close>

datatype book_msg =
  Channel_data string int "level list" "level list"
| Snapshot string "(string \<times> snapshot_entry list) list"

text \<open>
  \<open>exchange_symbol_to_std_symbol\<close> belongs to the base class \<open>Feed\<close>, which is not among
  the sources: it is the parameter \<open>std\<close> of the handlers, and it may raise.
\<close>

type_synonym symbol_table = "string \<Rightarrow> error + symbol"

subsection \<open>\<open>__reset\<close>\<close>

definition dydx_reset :: "dydx \<Rightarrow> dydx" where
  "dydx_reset self = self\<lparr>l2_book := Map.empty, offsets := Map.empty\<rparr>"

subsection \<open>\<open>_book\<close>, an update batch\<close>

text \<open>
  The test \<open>price in self._offsets[pair] and offset < self._offsets[pair][price]\<close>, for the
  ledger of the pair.
\<close>

definition stale :: "ledger \<Rightarrow> decimal \<Rightarrow> int \<Rightarrow> bool" where
  "stale led price offset = (case led price of None \<Rightarrow> False | Some t \<Rightarrow> offset < t)"

text \<open>
  The variables that the two nested loops change: the adapter, \<open>delta\<close> and \<open>updated\<close>.
  A raise leaves the loops with the state reached so far, so every step returns the state
  together with the error, if any.
\<close>

record loop_state =
  ls_self :: dydx
  ls_delta :: book_delta
  ls_updated :: bool

definition book_level ::
  "symbol \<Rightarrow> int \<Rightarrow> side \<Rightarrow> level \<Rightarrow> loop_state \<Rightarrow> error option \<times> loop_state" where
  "book_level pair offset sd data ls =
    (let price = fst data; amount = snd data; self = ls_self ls in
     case offsets self pair of
       None \<Rightarrow> (Some KeyError, ls)
     | Some led \<Rightarrow>
         if stale led price offset then (None, ls)
         else
           let self1 = self\<lparr>offsets := (offsets self)(pair \<mapsto> led(price \<mapsto> offset))\<rparr>;
               ls1 = ls\<lparr>ls_self := self1,
                        ls_delta := delta_append sd (price, amount) (ls_delta ls),
                        ls_updated := True\<rparr>
           in (case l2_book self1 pair of
                None \<Rightarrow> (Some KeyError, ls1)
              | Some ob \<Rightarrow>
                  if amount = 0 then
                    (if book_side sd ob price \<noteq> None
                     then (None, ls1\<lparr>ls_self := self1\<lparr>l2_book := (l2_book self1)
                            (pair \<mapsto> set_book_side sd ((book_side sd ob)(price := None)) ob)\<rparr>\<rparr>)
                     else (None, ls1))
                  else (None, ls1\<lparr>ls_self := self1\<lparr>l2_book := (l2_book self1)
                          (pair \<mapsto> set_book_side sd ((book_side sd ob)(price \<mapsto> amount)) ob)\<rparr>\<rparr>)))"

fun book_levels ::
  "symbol \<Rightarrow> int \<Rightarrow> side \<Rightarrow> level list \<Rightarrow> loop_state \<Rightarrow> error option \<times> loop_state" where
  "book_levels pair offset sd [] ls = (None, ls)"
| "book_levels pair offset sd (data # rest) ls =
    (case book_level pair offset sd data ls of
       (Some e, ls') \<Rightarrow> (Some e, ls')
     | (None, ls') \<Rightarrow> book_levels pair offset sd rest ls')"

subsection \<open>\<open>_book\<close>, a snapshot\<close>

definition snapshot_entry_step ::
  "symbol \<Rightarrow> side \<Rightarrow> snapshot_entry \<Rightarrow> dydx \<Rightarrow> error option \<times> dydx" where
  "snapshot_entry_step pair sd entry self =
    (case offsets self pair of
       None \<Rightarrow> (Some KeyError, self)
     | Some led \<Rightarrow>
         let self1 = self\<lparr>offsets := (offsets self)(pair \<mapsto> led(se_price entry \<mapsto> se_offset entry))\<rparr>;
             sz = se_size entry
         in if sz > 0 then
              (case l2_book self1 pair of
                 None \<Rightarrow> (Some KeyError, self1)
               | Some ob \<Rightarrow> (None, self1\<lparr>l2_book := (l2_book self1)
                    (pair \<mapsto> set_book_side sd ((book_side sd ob)(se_price entry \<mapsto> sz)) ob)\<rparr>))
            else (None, self1))"

fun snapshot_entries ::
  "symbol \<Rightarrow> side \<Rightarrow> snapshot_entry list \<Rightarrow> dydx \<Rightarrow> error option \<times> dydx" where
  "snapshot_entries pair sd [] self = (None, self)"
| "snapshot_entries pair sd (entry # rest) self =
    (case snapshot_entry_step pair sd entry self of
       (Some e, self') \<Rightarrow> (Some e, self')
     | (None, self') \<Rightarrow> snapshot_entries pair sd rest self')"

fun snapshot_items ::
  "symbol \<Rightarrow> (string \<times> snapshot_entry list) list \<Rightarrow> dydx \<Rightarrow> error option \<times> dydx" where
  "snapshot_items pair [] self = (None, self)"
| "snapshot_items pair ((key, data) # rest) self =
    (case snapshot_entries pair (if key = ''bids'' then BID else ASK) data self of
       (Some e, self') \<Rightarrow> (Some e, self')
     | (None, self') \<Rightarrow> snapshot_items pair rest self')"

subsection \<open>\<open>_book\<close>\<close>

text \<open>
  The handler returns the error it raised, if any, the adapter as it is left, and the
  events given to \<open>book_callback\<close>, in order.
\<close>

type_synonym book_result = "error option \<times> dydx \<times> book_event list"

definition emit_book :: "symbol \<Rightarrow> book_delta option \<Rightarrow> dydx \<Rightarrow> book_result" where
  "emit_book pair d self =
    (case l2_book self pair of
       None \<Rightarrow> (Some KeyError, self, [])
     | Some ob \<Rightarrow> (None, self, [\<lparr>be_symbol = pair, be_book = ob, be_delta = d\<rparr>]))"

fun dydx_book :: "symbol_table \<Rightarrow> dydx \<Rightarrow> book_msg \<Rightarrow> book_result" where
  "dydx_book std self (Channel_data mid offset bs as) =
    (case std mid of
       Inl e \<Rightarrow> (Some e, self, [])
     | Inr pair \<Rightarrow>
        (case book_levels pair offset BID bs
                \<lparr>ls_self = self, ls_delta = empty_delta, ls_updated = False\<rparr> of
           (Some e, ls) \<Rightarrow> (Some e, ls_self ls, [])
         | (None, ls) \<Rightarrow>
            (case book_levels pair offset ASK as ls of
               (Some e, ls') \<Rightarrow> (Some e, ls_self ls', [])
             | (None, ls') \<Rightarrow>
                 if ls_updated ls' then emit_book pair (Some (ls_delta ls')) (ls_self ls')
                 else (None, ls_self ls', []))))"
| "dydx_book std self (Snapshot mid items) =
    (case std mid of
       Inl e \<Rightarrow> (Some e, self, [])
     | Inr pair \<Rightarrow>
        (let self1 = self\<lparr>l2_book := (l2_book self)(pair \<mapsto> OrderBook)\<rparr>;
             self2 = self1\<lparr>offsets := (offsets self1)(pair \<mapsto> Map.empty)\<rparr>
         in case snapshot_items pair items self2 of
              (Some e, self') \<Rightarrow> (Some e, self', [])
            | (None, self') \<Rightarrow> emit_book pair None self'))"


subsection \<open>A run of book messages\<close>

text \<open>
  The messages of one connection are handled one after another. A raise leaves the handler
  and ends the run with the state reached.
\<close>

fun handle_all :: "symbol_table \<Rightarrow> dydx \<Rightarrow> book_msg list \<Rightarrow> book_result" where
  "handle_all std self [] = (None, self, [])"
| "handle_all std self (msg # rest) =
    (case dydx_book std self msg of
       (Some e, self', evs) \<Rightarrow> (Some e, self', evs)
     | (None, self', evs) \<Rightarrow>
         (case handle_all std self' rest of (e, self'', evs') \<Rightarrow> (e, self'', evs @ evs')))"

fun is_channel_data :: "book_msg \<Rightarrow> bool" where
  "is_channel_data (Channel_data mid offset bs as) = True"
| "is_channel_data (Snapshot mid items) = False"

subsection \<open>\<open>_trade\<close>\<close>

text \<open>
  One \<open>Trade\<close> object: the symbol, the side, the amount, the price, the normalised
  timestamp and the optional trade id. The exchange id and the raw record are left out.
  The timestamp is a float in the source; its type is the parameter \<open>'f\<close>.
\<close>

record 'f trade =
  t_symbol :: symbol
  t_side :: trade_side
  t_amount :: decimal
  t_price :: decimal
  t_timestamp :: 'f
  t_id :: "string option"

text \<open>
  A record of \<open>msg['contents']['trades']\<close>. \<open>createdAt\<close> is a datetime; dYdX inherits
  \<open>timestamp_normalize\<close> from \<open>Feed\<close>, so it is the parameter \<open>tn\<close>.
\<close>

record 'dt wire_trade =
  wt_side :: string
  wt_size :: decimal
  wt_price :: decimal
  wt_createdAt :: 'dt

fun dydx_trade_loop :: "symbol \<Rightarrow> ('dt \<Rightarrow> 'f) \<Rightarrow> 'dt wire_trade list \<Rightarrow> 'f trade list" where
  "dydx_trade_loop pair tn [] = []"
| "dydx_trade_loop pair tn (trade # rest) =
    \<lparr>t_symbol = pair,
     t_side = (if wt_side trade = ''BUY'' then BUY else SELL),
     t_amount = wt_size trade,
     t_price = wt_price trade,
     t_timestamp = tn (wt_createdAt trade),
     t_id = None\<rparr> # dydx_trade_loop pair tn rest"

definition dydx_trade ::
  "symbol_table \<Rightarrow> ('dt \<Rightarrow> 'f) \<Rightarrow> string \<Rightarrow> 'dt wire_trade list \<Rightarrow> error + 'f trade list" where
  "dydx_trade std tn mid trades =
    (case std mid of
       Inl e \<Rightarrow> Inl e
     | Inr pair \<Rightarrow> Inr (dydx_trade_loop pair tn trades))"

subsection \<open>\<open>subscribe\<close>\<close>

text \<open>
  The constants \<open>L2_BOOK\<close> and \<open>TRADES\<close> of \<open>cryptofeed.defines\<close> are two different
  strings. \<open>exchange_channel_to_std\<close> belongs to \<open>Feed\<close>: it is the parameter \<open>chan_std\<close>,
  and it may raise. \<open>self.subscription\<close> is a dictionary, given by its items in order.
  Each \<open>conn.write\<close> adds one message to the list of messages written.
\<close>

definition L2_BOOK :: string where
  "L2_BOOK = ''l2_book''"

definition TRADES :: string where
  "TRADES = ''trades''"

record subscribe_msg =
  sm_channel :: string
  sm_id :: string
  sm_includeOffsets :: bool

fun dydx_subscribe_symbols ::
  "(string \<Rightarrow> error + string) \<Rightarrow> string \<Rightarrow> string list \<Rightarrow> error option \<times> subscribe_msg list" where
  "dydx_subscribe_symbols chan_std chan [] = (None, [])"
| "dydx_subscribe_symbols chan_std chan (s # rest) =
    (case chan_std chan of
       Inl e \<Rightarrow> (Some e, [])
     | Inr c \<Rightarrow>
         (case dydx_subscribe_symbols chan_std chan rest of
            (e, written) \<Rightarrow>
              (e, \<lparr>sm_channel = chan, sm_id = s, sm_includeOffsets = (c = L2_BOOK)\<rparr> # written)))"

fun dydx_subscribe_items ::
  "(string \<Rightarrow> error + string) \<Rightarrow> (string \<times> string list) list \<Rightarrow> error option \<times> subscribe_msg list" where
  "dydx_subscribe_items chan_std [] = (None, [])"
| "dydx_subscribe_items chan_std ((chan, symbols) # rest) =
    (case dydx_subscribe_symbols chan_std chan symbols of
       (Some e, written) \<Rightarrow> (Some e, written)
     | (None, written) \<Rightarrow>
         (case dydx_subscribe_items chan_std rest of
            (e, written') \<Rightarrow> (e, written @ written')))"

definition dydx_subscribe ::
  "(string \<Rightarrow> error + string) \<Rightarrow> (string \<times> string list) list \<Rightarrow> dydx
     \<Rightarrow> error option \<times> dydx \<times> subscribe_msg list" where
  "dydx_subscribe chan_std subscription self =
    (let self1 = dydx_reset self
     in case dydx_subscribe_items chan_std subscription of
          (e, written) \<Rightarrow> (e, self1, written))"

section \<open>The Upbit adapter\<close>

text \<open>
  The adapter keeps only \<open>_l2_book\<close>. Its \<open>timestamp_normalize\<close> is \<open>ts / 1000.0\<close>, a
  division of floats: the division is the parameter \<open>truediv\<close>, applied to the integer
  timestamp and to the value of the literal.
\<close>

record upbit =
  upbit_l2_book :: "symbol \<rightharpoonup> order_book"

definition upbit_timestamp_normalize :: "(int \<Rightarrow> rat \<Rightarrow> 'f) \<Rightarrow> int \<Rightarrow> 'f" where
  "upbit_timestamp_normalize truediv ts = truediv ts 1000"

subsection \<open>\<open>_trade\<close>\<close>

record upbit_trade_msg =
  tm_cd :: string
  tm_tp :: decimal
  tm_tv :: decimal
  tm_ttms :: int
  tm_ab :: string
  tm_sid :: int

text \<open>\<open>str\<close> of an integer.\<close>

fun str_nat :: "nat \<Rightarrow> string" where
  "str_nat n =
    (if n < 10 then [''0123456789'' ! n]
     else str_nat (n div 10) @ [''0123456789'' ! (n mod 10)])"

definition str_int :: "int \<Rightarrow> string" where
  "str_int i = (if i < 0 then CHR ''-'' # str_nat (nat (- i)) else str_nat (nat i))"

definition upbit_trade ::
  "symbol_table \<Rightarrow> (int \<Rightarrow> rat \<Rightarrow> 'f) \<Rightarrow> upbit_trade_msg \<Rightarrow> error + 'f trade list" where
  "upbit_trade std truediv msg =
    (let price = tm_tp msg; amount = tm_tv msg
     in case std (tm_cd msg) of
          Inl e \<Rightarrow> Inl e
        | Inr pair \<Rightarrow>
            Inr [\<lparr>t_symbol = pair,
                  t_side = (if tm_ab msg = ''BID'' then BUY else SELL),
                  t_amount = amount,
                  t_price = price,
                  t_timestamp = upbit_timestamp_normalize truediv (tm_ttms msg),
                  t_id = Some (str_int (tm_sid msg))\<rparr>])"

subsection \<open>\<open>_book\<close>\<close>

record orderbook_unit =
  unit_ap :: decimal
  unit_as :: decimal
  unit_bp :: decimal
  unit_bs :: decimal

record upbit_book_msg =
  bm_cd :: string
  bm_obu :: "orderbook_unit list"
  bm_tms :: int

record 'f upbit_book_event = book_event +
  be_timestamp :: 'f

text \<open>
  A dictionary comprehension \<open>{k(u): v(u) for u in units if c(u)}\<close> stores the pairs in
  order into an empty dictionary.
\<close>

fun dict_comp ::
  "('u \<Rightarrow> 'k) \<Rightarrow> ('u \<Rightarrow> 'v) \<Rightarrow> ('u \<Rightarrow> bool) \<Rightarrow> 'u list \<Rightarrow> ('k \<rightharpoonup> 'v) \<Rightarrow> ('k \<rightharpoonup> 'v)" where
  "dict_comp k v c [] m = m"
| "dict_comp k v c (u # us) m = dict_comp k v c us (if c u then m(k u \<mapsto> v u) else m)"

type_synonym 'f upbit_book_result = "error option \<times> upbit \<times> 'f upbit_book_event list"

definition upbit_book ::
  "symbol_table \<Rightarrow> (int \<Rightarrow> rat \<Rightarrow> 'f) \<Rightarrow> upbit \<Rightarrow> upbit_book_msg \<Rightarrow> 'f upbit_book_result" where
  "upbit_book std truediv self msg =
    (case std (bm_cd msg) of
       Inl e \<Rightarrow> (Some e, self, [])
     | Inr pair \<Rightarrow>
        (let orderbook_timestamp = upbit_timestamp_normalize truediv (bm_tms msg);
             self1 = (if upbit_l2_book self pair = None
                      then self\<lparr>upbit_l2_book := (upbit_l2_book self)(pair \<mapsto> OrderBook)\<rparr>
                      else self)
         in case upbit_l2_book self1 pair of
              None \<Rightarrow> (Some KeyError, self1, [])
            | Some ob \<Rightarrow>
               (let ob1 = ob\<lparr>bids := dict_comp unit_bp unit_bs (\<lambda>u. unit_bp u > 0)
                                        (bm_obu msg) Map.empty\<rparr>;
                    ob2 = ob1\<lparr>asks := dict_comp unit_ap unit_as (\<lambda>u. unit_ap u > 0)
                                        (bm_obu msg) Map.empty\<rparr>;
                    self2 = self1\<lparr>upbit_l2_book := (upbit_l2_book self1)(pair \<mapsto> ob2)\<rparr>
                in (None, self2,
                    [\<lparr>be_symbol = pair, be_book = ob2, be_delta = None,
                      be_timestamp = orderbook_timestamp\<rparr>]))))"

subsection \<open>\<open>subscribe\<close>\<close>

text \<open>
  The payload is the list \<open>chans\<close>; \<open>uuid.uuid4()\<close> is the parameter \<open>ticket\<close>. Every
  request carries \<open>isOnlyRealtime = True\<close>.
\<close>

datatype 'u upbit_chan = Ticket 'u | Format string | Request string "string list" bool

fun upbit_subscribe_chans :: "(string \<times> string list) list \<Rightarrow> 'u upbit_chan list \<Rightarrow> 'u upbit_chan list" where
  "upbit_subscribe_chans [] chans = chans"
| "upbit_subscribe_chans ((chan, codes) # rest) chans =
    (let chans1 = (if chan = L2_BOOK then chans @ [Request ''orderbook'' codes True] else chans);
         chans2 = (if chan = TRADES then chans1 @ [Request ''trade'' codes True] else chans1)
     in upbit_subscribe_chans rest chans2)"

definition upbit_subscribe ::
  "'u \<Rightarrow> (string \<times> string list) list \<Rightarrow> upbit \<Rightarrow> upbit \<times> 'u upbit_chan list list" where
  "upbit_subscribe ticket subscription self =
    (let chans = [Ticket ticket, Format ''SIMPLE'']
     in (self, [upbit_subscribe_chans subscription chans]))"

section \<open>Closed forms\<close>

text \<open>
  The functions below say what the loops compute. \<open>put_level\<close> is one applied level of an
  update batch: a size of 0 removes the price, any other size stores it. \<open>fresh\<close> keeps the
  levels of a batch that pass the offset test against a ledger, and \<open>mark\<close> records the
  offset of the batch for each of them.
\<close>

definition put_level :: "side \<Rightarrow> level \<Rightarrow> order_book \<Rightarrow> order_book" where
  "put_level sd data ob =
    set_book_side sd
      (if snd data = 0 then (book_side sd ob)(fst data := None)
       else (book_side sd ob)(fst data \<mapsto> snd data)) ob"

fun put_levels :: "side \<Rightarrow> level list \<Rightarrow> order_book \<Rightarrow> order_book" where
  "put_levels sd [] ob = ob"
| "put_levels sd (data # rest) ob = put_levels sd rest (put_level sd data ob)"

fun mark :: "int \<Rightarrow> level list \<Rightarrow> ledger \<Rightarrow> ledger" where
  "mark offset [] led = led"
| "mark offset (data # rest) led = mark offset rest (led(fst data \<mapsto> offset))"

definition fresh :: "ledger \<Rightarrow> int \<Rightarrow> level list \<Rightarrow> level list" where
  "fresh led offset ds = filter (\<lambda>data. \<not> stale led (fst data) offset) ds"

fun delta_extend :: "side \<Rightarrow> level list \<Rightarrow> book_delta \<Rightarrow> book_delta" where
  "delta_extend BID xs d = d\<lparr>delta_bid := delta_bid d @ xs\<rparr>"
| "delta_extend ASK xs d = d\<lparr>delta_ask := delta_ask d @ xs\<rparr>"

text \<open>
  For a snapshot: the side that a key of the contents stands for, the entries of all keys
  and of the keys of one side, the tokens and the installed levels of a list of entries.
  \<open>last_wins\<close> is the dictionary that results from storing a list of pairs in order.
\<close>

definition key_side :: "string \<Rightarrow> side" where
  "key_side key = (if key = ''bids'' then BID else ASK)"

definition all_entries :: "(string \<times> snapshot_entry list) list \<Rightarrow> snapshot_entry list" where
  "all_entries items = concat (map snd items)"

definition side_entries :: "side \<Rightarrow> (string \<times> snapshot_entry list) list \<Rightarrow> snapshot_entry list" where
  "side_entries sd items = concat (map snd (filter (\<lambda>item. key_side (fst item) = sd) items))"

definition tokens :: "snapshot_entry list \<Rightarrow> (decimal \<times> int) list" where
  "tokens es = map (\<lambda>e. (se_price e, se_offset e)) es"

definition installed :: "snapshot_entry list \<Rightarrow> level list" where
  "installed es = map (\<lambda>e. (se_price e, se_size e)) (filter (\<lambda>e. 0 < se_size e) es)"

definition last_wins :: "('a \<times> 'b) list \<Rightarrow> 'a \<rightharpoonup> 'b" where
  "last_wins xs = map_of (rev xs)"

text \<open>The token recorded for a price of a symbol, if any.\<close>

definition token :: "dydx \<Rightarrow> symbol \<Rightarrow> decimal \<Rightarrow> int option" where
  "token self pair price = (case offsets self pair of None \<Rightarrow> None | Some led \<Rightarrow> led price)"

section \<open>Values for running the model\<close>

text \<open>A division without rounding, to run the Upbit handlers on exact numbers.\<close>

definition exact_truediv :: "int \<Rightarrow> rat \<Rightarrow> rat" where
  "exact_truediv ts d = of_int ts / d"

text \<open>
  The dYdX adapter right after \<open>subscribe\<close>, and an Upbit adapter that holds a book.
\<close>

definition dydx_init :: dydx where
  "dydx_init = \<lparr>l2_book = Map.empty, offsets = Map.empty\<rparr>"

definition upbit_with_book :: upbit where
  "upbit_with_book =
    \<lparr>upbit_l2_book = [''KRW-BTC'' \<mapsto> \<lparr>bids = [100 \<mapsto> 2], asks = [101 \<mapsto> 3]\<rparr>]\<rparr>"

text \<open>
  The book and the ledger that a snapshot with the contents \<open>items\<close> installs.
\<close>

definition snapshot_book :: "(string \<times> snapshot_entry list) list \<Rightarrow> order_book" where
  "snapshot_book items =
    \<lparr>bids = last_wins (installed (side_entries BID items)),
     asks = last_wins (installed (side_entries ASK items))\<rparr>"

definition snapshot_ledger :: "(string \<times> snapshot_entry list) list \<Rightarrow> ledger" where
  "snapshot_ledger items = last_wins (tokens (all_entries items))"

text \<open>
  Two snapshots: the one of scenario A, and one whose only level has size 0. The adapter
  \<open>after_empty_level_snapshot\<close> has handled the second one.
\<close>

definition scenario_A :: "(string \<times> snapshot_entry list) list" where
  "scenario_A =
    [(''bids'', [\<lparr>se_price = 100, se_offset = 5, se_size = 2\<rparr>]),
     (''asks'', [\<lparr>se_price = 101, se_offset = 5, se_size = 3\<rparr>])]"

definition empty_level_snapshot :: "(string \<times> snapshot_entry list) list" where
  "empty_level_snapshot =
    [(''bids'', [\<lparr>se_price = 100, se_offset = 5, se_size = 0\<rparr>]), (''asks'', [])]"

definition after_empty_level_snapshot :: dydx where
  "after_empty_level_snapshot =
    fst (snd (dydx_book Inr dydx_init (Snapshot ''BTC-USD'' empty_level_snapshot)))"

text \<open>
  An update message with one level on one side, and the adapter after the snapshot of
  scenario A.
\<close>

definition one_level :: "side \<Rightarrow> string \<Rightarrow> int \<Rightarrow> level \<Rightarrow> book_msg" where
  "one_level sd mid offset data =
    (case sd of BID \<Rightarrow> Channel_data mid offset [data] []
              | ASK \<Rightarrow> Channel_data mid offset [] [data])"

definition after_scenario_A :: dydx where
  "after_scenario_A = fst (snd (dydx_book Inr dydx_init (Snapshot ''BTC-USD'' scenario_A)))"

text \<open>
  \<open>token_kept a b\<close>: if \<open>a\<close> is a recorded token, then \<open>b\<close> is a recorded token that is
  not below it. The two update messages of scenario B.
\<close>

definition token_kept :: "int option \<Rightarrow> int option \<Rightarrow> bool" where
  "token_kept a b =
    (case a of None \<Rightarrow> True
     | Some t \<Rightarrow> (case b of None \<Rightarrow> False | Some t' \<Rightarrow> t \<le> t'))"

definition scenario_B_stale :: book_msg where
  "scenario_B_stale = Channel_data ''BTC-USD'' 4 [(100, 1)] []"

definition scenario_B_fresh :: book_msg where
  "scenario_B_fresh = Channel_data ''BTC-USD'' 6 [(100, 1)] []"

text \<open>
  The book that an Upbit orderbook message with the units \<open>obu\<close> leaves for its symbol;
  an Upbit adapter without books; the message of scenario C, and a message with a bid of
  size 0.
\<close>

definition replaced_book :: "orderbook_unit list \<Rightarrow> order_book" where
  "replaced_book obu =
    \<lparr>bids = last_wins (map (\<lambda>u. (unit_bp u, unit_bs u)) (filter (\<lambda>u. 0 < unit_bp u) obu)),
     asks = last_wins (map (\<lambda>u. (unit_ap u, unit_as u)) (filter (\<lambda>u. 0 < unit_ap u) obu))\<rparr>"

definition upbit_init :: upbit where
  "upbit_init = \<lparr>upbit_l2_book = Map.empty\<rparr>"

definition scenario_C :: upbit_book_msg where
  "scenario_C =
    \<lparr>bm_cd = ''KRW-BTC'',
     bm_obu = [\<lparr>unit_ap = 0, unit_as = 1, unit_bp = 100, unit_bs = 2\<rparr>,
               \<lparr>unit_ap = 102, unit_as = 3, unit_bp = 99, unit_bs = 4\<rparr>],
     bm_tms = 1584263923000\<rparr>"

definition zero_size_msg :: upbit_book_msg where
  "zero_size_msg =
    \<lparr>bm_cd = ''KRW-BTC'',
     bm_obu = [\<lparr>unit_ap = 101, unit_as = 1, unit_bp = 100, unit_bs = 0\<rparr>],
     bm_tms = 1584263923000\<rparr>"

section \<open>The update loop\<close>

lemma book_level_stale:
  "offsets (ls_self ls) pair = Some led \<Longrightarrow> stale led (fst data) offset \<Longrightarrow>
   book_level pair offset sd data ls = (None, ls)"
  by (simp add: book_level_def)

lemma book_level_fresh:
  "offsets (ls_self ls) pair = Some led \<Longrightarrow> l2_book (ls_self ls) pair = Some ob \<Longrightarrow>
   \<not> stale led (fst data) offset \<Longrightarrow>
   book_level pair offset sd data ls =
     (None, \<lparr>ls_self =
                \<lparr>l2_book = (l2_book (ls_self ls))(pair \<mapsto> put_level sd data ob),
                 offsets = (offsets (ls_self ls))(pair \<mapsto> led(fst data \<mapsto> offset))\<rparr>,
              ls_delta = delta_append sd data (ls_delta ls),
              ls_updated = True\<rparr>)"
  by (cases sd) (auto simp: book_level_def put_level_def Let_def fun_upd_idem)

lemma stale_upd:
  "\<not> stale led p offset \<Longrightarrow> stale (led(p \<mapsto> offset)) q offset = stale led q offset"
  by (simp add: stale_def)

lemma fresh_upd:
  "\<not> stale led p offset \<Longrightarrow> fresh (led(p \<mapsto> offset)) offset ds = fresh led offset ds"
  by (simp add: fresh_def stale_upd)

lemma fresh_Cons:
  "fresh led offset (data # ds) =
    (if stale led (fst data) offset then fresh led offset ds else data # fresh led offset ds)"
  by (simp add: fresh_def)

lemma delta_extend_Nil: "delta_extend sd [] d = d"
  by (cases sd) simp_all

lemma delta_extend_Cons: "delta_extend sd (x # xs) d = delta_extend sd xs (delta_append sd x d)"
  by (cases sd) simp_all

lemma book_levels_closed:
  "offsets (ls_self ls) pair = Some led \<Longrightarrow> l2_book (ls_self ls) pair = Some ob \<Longrightarrow>
   book_levels pair offset sd ds ls =
     (None, \<lparr>ls_self =
                \<lparr>l2_book = (l2_book (ls_self ls))(pair \<mapsto> put_levels sd (fresh led offset ds) ob),
                 offsets = (offsets (ls_self ls))(pair \<mapsto> mark offset (fresh led offset ds) led)\<rparr>,
              ls_delta = delta_extend sd (fresh led offset ds) (ls_delta ls),
              ls_updated = (ls_updated ls \<or> fresh led offset ds \<noteq> [])\<rparr>)"
proof (induction ds arbitrary: ls led ob)
  case Nil
  then show ?case by (simp add: fresh_def delta_extend_Nil fun_upd_idem)
next
  case (Cons data ds)
  show ?case
  proof (cases "stale led (fst data) offset")
    case True
    with Cons show ?thesis
      by (simp add: book_level_stale fresh_Cons)
  next
    case False
    define ls1 where "ls1 = \<lparr>ls_self =
                \<lparr>l2_book = (l2_book (ls_self ls))(pair \<mapsto> put_level sd data ob),
                 offsets = (offsets (ls_self ls))(pair \<mapsto> led(fst data \<mapsto> offset))\<rparr>,
              ls_delta = delta_append sd data (ls_delta ls),
              ls_updated = True\<rparr>"
    have step: "book_level pair offset sd data ls = (None, ls1)"
      unfolding ls1_def using Cons.prems False by (rule book_level_fresh)
    have o1: "offsets (ls_self ls1) pair = Some (led(fst data \<mapsto> offset))"
      by (simp add: ls1_def)
    have b1: "l2_book (ls_self ls1) pair = Some (put_level sd data ob)"
      by (simp add: ls1_def)
    note ih = Cons.IH [of ls1 "led(fst data \<mapsto> offset)" "put_level sd data ob", OF o1 b1]
    have fr: "fresh led offset (data # ds) = data # fresh led offset ds"
      using False by (simp add: fresh_Cons)
    show ?thesis
      by (simp only: book_levels.simps step prod.case option.case ih fr fresh_upd [OF False]
            put_levels.simps mark.simps delta_extend_Cons)
         (simp add: ls1_def del: fun_upd_apply)
  qed
qed


lemma stale_mark:
  "\<forall>d \<in> set xs. \<not> stale led (fst d) offset \<Longrightarrow>
   stale (mark offset xs led) q offset = stale led q offset"
proof (induction xs arbitrary: led)
  case Nil
  then show ?case by simp
next
  case (Cons x xs)
  have "stale (mark offset xs (led(fst x \<mapsto> offset))) q offset
        = stale (led(fst x \<mapsto> offset)) q offset"
    using Cons.prems by (intro Cons.IH) (simp add: stale_upd del: fun_upd_apply)
  with Cons.prems show ?case by (simp add: stale_upd)
qed

lemma fresh_mark:
  "fresh (mark offset (fresh led offset xs) led) offset ds = fresh led offset ds"
proof -
  have "\<forall>d \<in> set (fresh led offset xs). \<not> stale led (fst d) offset"
    by (simp add: fresh_def)
  then have "\<And>q. stale (mark offset (fresh led offset xs) led) q offset = stale led q offset"
    by (rule stale_mark)
  then show ?thesis by (simp add: fresh_def)
qed

lemma dydx_book_update:
  assumes "std mid = Inr pair" and "offsets self pair = Some led" and "l2_book self pair = Some ob"
  shows "dydx_book std self (Channel_data mid offset bs as) =
    (None,
     \<lparr>l2_book = (l2_book self)(pair \<mapsto>
         put_levels ASK (fresh led offset as) (put_levels BID (fresh led offset bs) ob)),
      offsets = (offsets self)(pair \<mapsto>
         mark offset (fresh led offset as) (mark offset (fresh led offset bs) led))\<rparr>,
     if fresh led offset bs \<noteq> [] \<or> fresh led offset as \<noteq> [] then
       [\<lparr>be_symbol = pair,
         be_book = put_levels ASK (fresh led offset as) (put_levels BID (fresh led offset bs) ob),
         be_delta = Some \<lparr>delta_bid = fresh led offset bs, delta_ask = fresh led offset as\<rparr>\<rparr>]
     else [])"
proof -
  define ls0 where "ls0 = \<lparr>ls_self = self, ls_delta = empty_delta, ls_updated = False\<rparr>"
  define led1 where "led1 = mark offset (fresh led offset bs) led"
  define ob1 where "ob1 = put_levels BID (fresh led offset bs) ob"
  define ls1 where "ls1 = \<lparr>ls_self =
                \<lparr>l2_book = (l2_book self)(pair \<mapsto> ob1),
                 offsets = (offsets self)(pair \<mapsto> led1)\<rparr>,
              ls_delta = \<lparr>delta_bid = fresh led offset bs, delta_ask = []\<rparr>,
              ls_updated = (fresh led offset bs \<noteq> [])\<rparr>"
  have "book_levels pair offset BID bs ls0 =
      (None, \<lparr>ls_self =
                \<lparr>l2_book = (l2_book (ls_self ls0))(pair \<mapsto> put_levels BID (fresh led offset bs) ob),
                 offsets = (offsets (ls_self ls0))(pair \<mapsto> mark offset (fresh led offset bs) led)\<rparr>,
              ls_delta = delta_extend BID (fresh led offset bs) (ls_delta ls0),
              ls_updated = (ls_updated ls0 \<or> fresh led offset bs \<noteq> [])\<rparr>)"
    by (rule book_levels_closed) (simp_all add: ls0_def assms)
  then have bid: "book_levels pair offset BID bs ls0 = (None, ls1)"
    by (simp add: ls0_def ls1_def led1_def ob1_def empty_delta_def)
  have fr: "fresh led1 offset as = fresh led offset as"
    unfolding led1_def by (rule fresh_mark)
  have "book_levels pair offset ASK as ls1 =
      (None, \<lparr>ls_self =
                \<lparr>l2_book = (l2_book (ls_self ls1))(pair \<mapsto> put_levels ASK (fresh led1 offset as) ob1),
                 offsets = (offsets (ls_self ls1))(pair \<mapsto> mark offset (fresh led1 offset as) led1)\<rparr>,
              ls_delta = delta_extend ASK (fresh led1 offset as) (ls_delta ls1),
              ls_updated = (ls_updated ls1 \<or> fresh led1 offset as \<noteq> [])\<rparr>)"
    by (rule book_levels_closed) (simp_all add: ls1_def)
  then have ask: "book_levels pair offset ASK as ls1 =
      (None, \<lparr>ls_self =
                \<lparr>l2_book = (l2_book self)(pair \<mapsto> put_levels ASK (fresh led offset as) ob1),
                 offsets = (offsets self)(pair \<mapsto> mark offset (fresh led offset as) led1)\<rparr>,
              ls_delta = \<lparr>delta_bid = fresh led offset bs, delta_ask = fresh led offset as\<rparr>,
              ls_updated = (fresh led offset bs \<noteq> [] \<or> fresh led offset as \<noteq> [])\<rparr>)"
    by (simp add: fr) (simp add: ls1_def)
  show ?thesis
    using assms(1) by (simp add: bid [unfolded ls0_def] ask emit_book_def led1_def ob1_def)
qed

section \<open>The snapshot loop\<close>

lemma last_wins_Nil: "last_wins [] = Map.empty"
  by (simp add: last_wins_def)

lemma last_wins_Cons: "m ++ last_wins (x # xs) = m(fst x \<mapsto> snd x) ++ last_wins xs"
  by (cases x) (simp add: last_wins_def)

lemma last_wins_append: "m ++ last_wins (xs @ ys) = (m ++ last_wins xs) ++ last_wins ys"
  by (simp add: last_wins_def)

lemma book_side_set: "book_side sd (set_book_side sd m ob) = m"
  by (cases sd) simp_all

lemma set_book_side_twice: "set_book_side sd m (set_book_side sd m' ob) = set_book_side sd m ob"
  by (cases sd) simp_all

lemma set_book_side_same: "set_book_side sd (book_side sd ob) ob = ob"
  by (cases sd) simp_all

lemma snapshot_entry_step_ok:
  "offsets self pair = Some led \<Longrightarrow> l2_book self pair = Some ob \<Longrightarrow>
   snapshot_entry_step pair sd entry self =
     (None, \<lparr>l2_book = (l2_book self)(pair \<mapsto>
                set_book_side sd (book_side sd ob ++ last_wins (installed [entry])) ob),
             offsets = (offsets self)(pair \<mapsto> led(se_price entry \<mapsto> se_offset entry))\<rparr>)"
  by (simp add: snapshot_entry_step_def Let_def installed_def last_wins_def
        set_book_side_same fun_upd_idem)

lemma installed_Cons: "installed (e # es) = installed [e] @ installed es"
  by (simp add: installed_def)

lemma installed_append: "installed (xs @ ys) = installed xs @ installed ys"
  by (simp add: installed_def)

lemma tokens_append: "tokens (xs @ ys) = tokens xs @ tokens ys"
  by (simp add: tokens_def)

lemma snapshot_entries_closed:
  "offsets self pair = Some led \<Longrightarrow> l2_book self pair = Some ob \<Longrightarrow>
   snapshot_entries pair sd es self =
     (None, \<lparr>l2_book = (l2_book self)(pair \<mapsto>
                set_book_side sd (book_side sd ob ++ last_wins (installed es)) ob),
             offsets = (offsets self)(pair \<mapsto> led ++ last_wins (tokens es))\<rparr>)"
proof (induction es arbitrary: self led ob)
  case Nil
  then show ?case
    by (simp add: installed_def tokens_def last_wins_Nil set_book_side_same fun_upd_idem)
next
  case (Cons e es)
  define ob1 where "ob1 = set_book_side sd (book_side sd ob ++ last_wins (installed [e])) ob"
  define led1 where "led1 = led(se_price e \<mapsto> se_offset e)"
  define self1 where "self1 = \<lparr>l2_book = (l2_book self)(pair \<mapsto> ob1),
             offsets = (offsets self)(pair \<mapsto> led1)\<rparr>"
  have step: "snapshot_entry_step pair sd e self = (None, self1)"
    unfolding self1_def ob1_def led1_def using Cons.prems by (rule snapshot_entry_step_ok)
  have o1: "offsets self1 pair = Some led1" by (simp add: self1_def)
  have b1: "l2_book self1 pair = Some ob1" by (simp add: self1_def)
  note ih = Cons.IH [of self1 led1 ob1, OF o1 b1]
  have bk: "set_book_side sd (book_side sd ob1 ++ last_wins (installed es)) ob1
            = set_book_side sd (book_side sd ob ++ last_wins (installed (e # es))) ob"
    by (simp add: ob1_def book_side_set set_book_side_twice installed_Cons [of e es]
          last_wins_append)
  have ld: "led1 ++ last_wins (tokens es) = led ++ last_wins (tokens (e # es))"
    by (simp add: led1_def tokens_def last_wins_Cons)
  show ?case
    by (simp only: snapshot_entries.simps step prod.case option.case ih bk ld)
       (simp add: self1_def del: fun_upd_apply)
qed

lemma side_entries_Cons:
  "side_entries sd ((key, data) # rest) =
    (if key_side key = sd then data @ side_entries sd rest else side_entries sd rest)"
  by (simp add: side_entries_def)

lemma snapshot_items_closed:
  "offsets self pair = Some led \<Longrightarrow> l2_book self pair = Some ob \<Longrightarrow>
   snapshot_items pair items self =
     (None, \<lparr>l2_book = (l2_book self)(pair \<mapsto>
                \<lparr>bids = bids ob ++ last_wins (installed (side_entries BID items)),
                 asks = asks ob ++ last_wins (installed (side_entries ASK items))\<rparr>),
             offsets = (offsets self)(pair \<mapsto> led ++ last_wins (tokens (all_entries items)))\<rparr>)"
proof (induction items arbitrary: self led ob)
  case Nil
  then show ?case
    by (simp add: side_entries_def all_entries_def installed_def tokens_def last_wins_Nil
          fun_upd_idem)
next
  case (Cons item items)
  obtain key data where item: "item = (key, data)" by (cases item)
  define sd where "sd = key_side key"
  define ob1 where "ob1 = set_book_side sd (book_side sd ob ++ last_wins (installed data)) ob"
  define led1 where "led1 = led ++ last_wins (tokens data)"
  define self1 where "self1 = \<lparr>l2_book = (l2_book self)(pair \<mapsto> ob1),
             offsets = (offsets self)(pair \<mapsto> led1)\<rparr>"
  have step: "snapshot_entries pair (if key = ''bids'' then BID else ASK) data self = (None, self1)"
    unfolding self1_def ob1_def led1_def sd_def key_side_def
    using Cons.prems by (rule snapshot_entries_closed)
  have o1: "offsets self1 pair = Some led1" by (simp add: self1_def)
  have b1: "l2_book self1 pair = Some ob1" by (simp add: self1_def)
  note ih = Cons.IH [of self1 led1 ob1, OF o1 b1]
  have bk: "\<lparr>bids = bids ob1 ++ last_wins (installed (side_entries BID items)),
             asks = asks ob1 ++ last_wins (installed (side_entries ASK items))\<rparr>
          = \<lparr>bids = bids ob ++ last_wins (installed (side_entries BID (item # items))),
             asks = asks ob ++ last_wins (installed (side_entries ASK (item # items)))\<rparr>"
    by (cases sd) (simp_all add: ob1_def item side_entries_Cons sd_def installed_append
          last_wins_append)
  have ld: "led1 ++ last_wins (tokens (all_entries items))
          = led ++ last_wins (tokens (all_entries (item # items)))"
    by (simp add: led1_def item all_entries_def tokens_append last_wins_append)
  show ?case
    by (simp only: item snapshot_items.simps step prod.case option.case ih bk [unfolded item] ld [unfolded item])
       (simp add: self1_def del: fun_upd_apply)
qed

lemma dydx_book_snapshot:
  assumes "std mid = Inr pair"
  shows "dydx_book std self (Snapshot mid items) =
    (None,
     \<lparr>l2_book = (l2_book self)(pair \<mapsto>
         \<lparr>bids = last_wins (installed (side_entries BID items)),
          asks = last_wins (installed (side_entries ASK items))\<rparr>),
      offsets = (offsets self)(pair \<mapsto> last_wins (tokens (all_entries items)))\<rparr>,
     [\<lparr>be_symbol = pair,
       be_book = \<lparr>bids = last_wins (installed (side_entries BID items)),
                  asks = last_wins (installed (side_entries ASK items))\<rparr>,
       be_delta = None\<rparr>])"
proof -
  define self2 where "self2 = \<lparr>l2_book = (l2_book self)(pair \<mapsto> OrderBook),
             offsets = (offsets self)(pair \<mapsto> Map.empty)\<rparr>"
  have o: "offsets self2 pair = Some Map.empty" and b: "l2_book self2 pair = Some OrderBook"
    by (simp_all add: self2_def)
  note cl = snapshot_items_closed [of self2 pair Map.empty OrderBook items, OF o b]
  have s2: "self\<lparr>l2_book := (l2_book self)(pair \<mapsto> OrderBook),
                 offsets := (offsets self)(pair \<mapsto> Map.empty)\<rparr> = self2"
    by (simp add: self2_def)
  show ?thesis
    using assms
    by (simp add: Let_def s2 cl emit_book_def fun_upd_same del: fun_upd_apply)
       (simp add: self2_def OrderBook_def fun_upd_same del: fun_upd_apply)
qed

section \<open>Trades\<close>

lemma dydx_trade_loop_length: "length (dydx_trade_loop pair tn trades) = length trades"
  by (induction trades) simp_all

lemma dydx_trade_loop_nth:
  "i < length trades \<Longrightarrow>
   dydx_trade_loop pair tn trades ! i =
     \<lparr>t_symbol = pair,
      t_side = (if wt_side (trades ! i) = ''BUY'' then BUY else SELL),
      t_amount = wt_size (trades ! i),
      t_price = wt_price (trades ! i),
      t_timestamp = tn (wt_createdAt (trades ! i)),
      t_id = None\<rparr>"
proof (induction trades arbitrary: i)
  case Nil
  then show ?case by simp
next
  case (Cons trade rest)
  then show ?case by (cases i) simp_all
qed

text \<open>
  C7. A trade message yields one trade event for each wire record, in wire order. dYdX: a
  message with the records \<open>trades\<close> yields as many events as records, and the event at
  position \<open>i\<close> has the side of record \<open>i\<close> (\<open>BUY\<close> for the text BUY, \<open>SELL\<close> otherwise),
  its size and price as they are, and its normalised timestamp. Upbit: a message is one
  record and yields one event, \<open>BUY\<close> for the text BID and \<open>SELL\<close> otherwise, with the
  millisecond timestamp divided by 1000.
\<close>

theorem trade_events_in_wire_order:
  "(std mid = Inr pair \<longrightarrow>
      (\<exists>ts. dydx_trade std tn mid trades = Inr ts \<and> length ts = length trades \<and>
         (\<forall>i < length trades.
            ts ! i = \<lparr>t_symbol = pair,
                      t_side = (if wt_side (trades ! i) = ''BUY'' then BUY else SELL),
                      t_amount = wt_size (trades ! i),
                      t_price = wt_price (trades ! i),
                      t_timestamp = tn (wt_createdAt (trades ! i)),
                      t_id = None\<rparr>))) \<and>
   (std' (tm_cd msg) = Inr pair' \<longrightarrow>
      upbit_trade std' truediv msg =
        Inr [\<lparr>t_symbol = pair',
              t_side = (if tm_ab msg = ''BID'' then BUY else SELL),
              t_amount = tm_tv msg,
              t_price = tm_tp msg,
              t_timestamp = truediv (tm_ttms msg) 1000,
              t_id = Some (str_int (tm_sid msg))\<rparr>])"
  by (simp add: dydx_trade_def upbit_trade_def upbit_timestamp_normalize_def
        dydx_trade_loop_length dydx_trade_loop_nth)

theorem trade_events_in_wire_order_witness:
  "dydx_trade Inr int ''UNI-USD''
     [\<lparr>wt_side = ''BUY'', wt_size = 3841 / 10, wt_price = 1723 / 100, wt_createdAt = 1624480105\<rparr>,
      \<lparr>wt_side = ''SELL'', wt_size = 3841 / 10, wt_price = 17138 / 1000, wt_createdAt = 1624479746\<rparr>]
   = Inr [\<lparr>t_symbol = ''UNI-USD'', t_side = BUY, t_amount = 3841 / 10, t_price = 1723 / 100,
            t_timestamp = 1624480105, t_id = None\<rparr>,
          \<lparr>t_symbol = ''UNI-USD'', t_side = SELL, t_amount = 3841 / 10, t_price = 17138 / 1000,
            t_timestamp = 1624479746, t_id = None\<rparr>] \<and>
   upbit_trade Inr exact_truediv
     \<lparr>tm_cd = ''KRW-BTC'', tm_tp = 6759000, tm_tv = 3243003 / 100000000,
      tm_ttms = 1584257228000, tm_ab = ''BID'', tm_sid = 1584257228000000\<rparr>
   = Inr [\<lparr>t_symbol = ''KRW-BTC'', t_side = BUY, t_amount = 3243003 / 100000000,
            t_price = 6759000, t_timestamp = 1584257228, t_id = Some ''1584257228000000''\<rparr>]"
proof -
  let ?trades = "[\<lparr>wt_side = ''BUY'', wt_size = 3841 / 10, wt_price = 1723 / 100, wt_createdAt = (1624480105::nat)\<rparr>,
      \<lparr>wt_side = ''SELL'', wt_size = 3841 / 10, wt_price = 17138 / 1000, wt_createdAt = 1624479746\<rparr>]"
  let ?msg = "\<lparr>tm_cd = ''KRW-BTC'', tm_tp = 6759000, tm_tv = 3243003 / 100000000,
      tm_ttms = 1584257228000, tm_ab = ''BID'', tm_sid = 1584257228000000\<rparr>"
  note t = trade_events_in_wire_order [of Inr "''UNI-USD''" "''UNI-USD''" int ?trades
      Inr ?msg "''KRW-BTC''" exact_truediv]
  have sid: "str_int 1584257228000000 = ''1584257228000000''"
    by (simp add: str_int_def)
  have u: "upbit_trade Inr exact_truediv ?msg
     = Inr [\<lparr>t_symbol = ''KRW-BTC'', t_side = BUY, t_amount = 3243003 / 100000000,
            t_price = 6759000, t_timestamp = 1584257228, t_id = Some ''1584257228000000''\<rparr>]"
    using conjunct2 [OF t] by (simp add: sid exact_truediv_def)
  from conjunct1 [OF t] obtain ts where ts: "dydx_trade Inr int ''UNI-USD'' ?trades = Inr ts"
     and len: "length ts = length ?trades"
     and nth: "\<And>i. i < length ?trades \<Longrightarrow> ts ! i = \<lparr>t_symbol = ''UNI-USD'',
                      t_side = (if wt_side (?trades ! i) = ''BUY'' then BUY else SELL),
                      t_amount = wt_size (?trades ! i),
                      t_price = wt_price (?trades ! i),
                      t_timestamp = int (wt_createdAt (?trades ! i)),
                      t_id = None\<rparr>"
    by blast
  have n0: "ts ! 0 = \<lparr>t_symbol = ''UNI-USD'', t_side = BUY, t_amount = 3841 / 10, t_price = 1723 / 100,
            t_timestamp = 1624480105, t_id = None\<rparr>"
    using nth [of 0] by simp
  have n1: "ts ! 1 = \<lparr>t_symbol = ''UNI-USD'', t_side = SELL, t_amount = 3841 / 10, t_price = 17138 / 1000,
            t_timestamp = 1624479746, t_id = None\<rparr>"
    using nth [of 1] by simp
  have "ts = [ts ! 0, ts ! 1]"
    using len by (cases ts; cases "tl ts") auto
  with n0 n1 ts u show ?thesis by simp
qed

section \<open>An update before any snapshot\<close>

lemma book_levels_no_ledger:
  "offsets (ls_self ls) pair = None \<Longrightarrow> ds \<noteq> [] \<Longrightarrow>
   book_levels pair offset sd ds ls = (Some KeyError, ls)"
  by (cases ds) (simp_all add: book_level_def)

text \<open>
  C10. When no snapshot has been handled for the symbol since the last \<open>subscribe\<close>, so
  that the symbol has no ledger, the first lookup of the ledger raises \<open>KeyError\<close>: an update
  message with at least one level raises it at its first level, with the adapter unchanged
  and nothing emitted, so that no book state is created. Only a message without any level,
  which does no lookup, returns; it leaves the adapter unchanged and emits nothing too.
\<close>

theorem update_without_snapshot:
  "offsets self pair = None \<Longrightarrow> std mid = Inr pair \<Longrightarrow>
   dydx_book std self (Channel_data mid offset bs as) =
     (if bs = [] \<and> as = [] then None else Some KeyError, self, [])"
proof (cases "bs = []")
  case True
  assume a: "offsets self pair = None" "std mid = Inr pair"
  show ?thesis
  proof (cases "as = []")
    case True
    with \<open>bs = []\<close> a show ?thesis by (simp add: empty_delta_def)
  next
    case False
    with \<open>bs = []\<close> a show ?thesis by (simp add: book_levels_no_ledger)
  qed
next
  case False
  assume a: "offsets self pair = None" "std mid = Inr pair"
  with False show ?thesis by (simp add: book_levels_no_ledger)
qed

theorem update_without_snapshot_witness:
  "dydx_book Inr dydx_init (Channel_data ''BTC-USD'' 5 [(100, 1)] []) =
     (Some KeyError, dydx_init, [])"
  using update_without_snapshot [of dydx_init "''BTC-USD''" Inr "''BTC-USD''" 5 "[(100, 1)]" "[]"]
  by (simp add: dydx_init_def)

section \<open>Snapshots\<close>

lemma last_wins_Some: "last_wins xs k = Some v \<Longrightarrow> (k, v) \<in> set xs"
  unfolding last_wins_def by (drule map_of_SomeD) simp

lemma last_wins_dom: "dom (last_wins xs) = fst ` set xs"
  by (simp add: last_wins_def dom_map_of_conv_image_fst)

lemma installed_iff:
  "(p, s) \<in> set (installed es) \<longleftrightarrow> (\<exists>e \<in> set es. se_price e = p \<and> se_size e = s \<and> 0 < s)"
  by (auto simp: installed_def)

lemma side_entries_subset: "set (side_entries sd items) \<subseteq> set (all_entries items)"
  by (auto simp: side_entries_def all_entries_def)

lemma dydx_book_snapshot':
  "std mid = Inr pair \<Longrightarrow>
   dydx_book std self (Snapshot mid items) =
    (None,
     \<lparr>l2_book = (l2_book self)(pair \<mapsto> snapshot_book items),
      offsets = (offsets self)(pair \<mapsto> snapshot_ledger items)\<rparr>,
     [\<lparr>be_symbol = pair, be_book = snapshot_book items, be_delta = None\<rparr>])"
  unfolding snapshot_book_def snapshot_ledger_def by (rule dydx_book_snapshot)

lemma snapshot_book_levels:
  "book_side sd (snapshot_book items) p = Some s \<Longrightarrow>
   0 < s \<and> (\<exists>e \<in> set (side_entries sd items). se_price e = p \<and> se_size e = s)"
  by (cases sd) (auto simp: snapshot_book_def dest!: last_wins_Some simp: installed_iff)

lemma snapshot_book_installs:
  "e \<in> set (side_entries sd items) \<Longrightarrow> 0 < se_size e \<Longrightarrow>
   book_side sd (snapshot_book items) (se_price e) \<noteq> None"
proof -
  assume "e \<in> set (side_entries sd items)" "0 < se_size e"
  then have "(se_price e, se_size e) \<in> set (installed (side_entries sd items))"
    by (auto simp: installed_iff)
  then have "se_price e \<in> dom (last_wins (installed (side_entries sd items)))"
    unfolding last_wins_dom by (rule image_eqI [rotated]) simp
  then show ?thesis by (cases sd) (auto simp: snapshot_book_def)
qed

lemma snapshot_ledger_seeds:
  "e \<in> set (all_entries items) \<Longrightarrow> snapshot_ledger items (se_price e) \<noteq> None"
proof -
  assume "e \<in> set (all_entries items)"
  then have "se_price e \<in> dom (snapshot_ledger items)"
    unfolding snapshot_ledger_def last_wins_dom tokens_def by force
  then show ?thesis by auto
qed

lemma snapshot_ledger_tokens:
  "snapshot_ledger items p = Some t \<Longrightarrow>
   \<exists>e \<in> set (all_entries items). se_price e = p \<and> se_offset e = t"
  by (auto simp: snapshot_ledger_def tokens_def dest!: last_wins_Some)

lemma fresh_Nil_iff: "fresh led offset ds = [] \<longleftrightarrow> (\<forall>d \<in> set ds. stale led (fst d) offset)"
  by (simp add: fresh_def filter_empty_conv)

lemma dydx_book_all_stale:
  assumes "std mid = Inr pair" and "offsets self pair = Some led" and "l2_book self pair = Some ob"
    and "fresh led offset bs = []" and "fresh led offset as = []"
  shows "dydx_book std self (Channel_data mid offset bs as) = (None, self, [])"
proof -
  have "(l2_book self)(pair \<mapsto> ob) = l2_book self" "(offsets self)(pair \<mapsto> led) = offsets self"
    using assms(2,3) by (simp_all add: fun_upd_idem)
  then show ?thesis
    by (simp add: dydx_book_update [of std mid pair, OF assms(1-3)] assms(4,5)
          del: fun_upd_apply dydx_book.simps)
qed

text \<open>
  C2. A snapshot message replaces the book and the ledger of its symbol by values that
  depend on the message alone, and emits one event that carries the resulting book with
  a delta of \<open>None\<close>. Every level of that book has a size above 0 and is a level of the
  snapshot on that side; every snapshot level with a size above 0 has its price in the
  book; the ledger holds a token for the price of every snapshot level, and every token
  it holds is the token of a snapshot level.
\<close>

theorem snapshot_replaces_book_and_ledger:
  "std mid = Inr pair \<Longrightarrow>
   dydx_book std self (Snapshot mid items) =
    (None,
     \<lparr>l2_book = (l2_book self)(pair \<mapsto> snapshot_book items),
      offsets = (offsets self)(pair \<mapsto> snapshot_ledger items)\<rparr>,
     [\<lparr>be_symbol = pair, be_book = snapshot_book items, be_delta = None\<rparr>]) \<and>
   (\<forall>sd p s. book_side sd (snapshot_book items) p = Some s \<longrightarrow>
      0 < s \<and> (\<exists>e \<in> set (side_entries sd items). se_price e = p \<and> se_size e = s)) \<and>
   (\<forall>sd. \<forall>e \<in> set (side_entries sd items). 0 < se_size e \<longrightarrow>
      book_side sd (snapshot_book items) (se_price e) \<noteq> None) \<and>
   (\<forall>e \<in> set (all_entries items). snapshot_ledger items (se_price e) \<noteq> None) \<and>
   (\<forall>p t. snapshot_ledger items p = Some t \<longrightarrow>
      (\<exists>e \<in> set (all_entries items). se_price e = p \<and> se_offset e = t))"
  using snapshot_book_levels snapshot_book_installs snapshot_ledger_seeds snapshot_ledger_tokens
  by (simp only: dydx_book_snapshot' simp_thms) blast

theorem snapshot_replaces_book_and_ledger_witness:
  "dydx_book Inr dydx_init (Snapshot ''BTC-USD'' scenario_A) =
    (None,
     \<lparr>l2_book = [''BTC-USD'' \<mapsto> \<lparr>bids = [100 \<mapsto> 2], asks = [101 \<mapsto> 3]\<rparr>],
      offsets = [''BTC-USD'' \<mapsto> [100 \<mapsto> 5, 101 \<mapsto> 5]]\<rparr>,
     [\<lparr>be_symbol = ''BTC-USD'', be_book = \<lparr>bids = [100 \<mapsto> 2], asks = [101 \<mapsto> 3]\<rparr>,
       be_delta = None\<rparr>])"
proof -
  have b: "snapshot_book scenario_A = \<lparr>bids = [100 \<mapsto> 2], asks = [101 \<mapsto> 3]\<rparr>"
    by (simp add: snapshot_book_def scenario_A_def side_entries_def key_side_def installed_def
          last_wins_def)
  have l: "snapshot_ledger scenario_A = [100 \<mapsto> 5, 101 \<mapsto> 5]"
    by (simp add: snapshot_ledger_def scenario_A_def all_entries_def tokens_def last_wins_def)
  have "Inr ''BTC-USD'' = (Inr ''BTC-USD'' :: error + symbol)" by simp
  from snapshot_replaces_book_and_ledger [of Inr "''BTC-USD''" "''BTC-USD''" dydx_init scenario_A, OF this]
  show ?thesis by (simp add: b l dydx_init_def del: dydx_book.simps)
qed

text \<open>
  C9. After a snapshot the ledger has a token for the price of every level of the message,
  also for the levels of size 0, which the book does not get: the prices of the book are
  among the prices of the ledger, and for the snapshot whose only level has size 0 they
  are strictly fewer. A later update of one level, on either side, whose offset is below
  the token seeded for its price is discarded: the adapter is unchanged and nothing is
  emitted.
\<close>

theorem ledger_covers_snapshot_levels:
  "std mid = Inr pair \<Longrightarrow>
   self' = fst (snd (dydx_book std self (Snapshot mid items))) \<Longrightarrow>
   offsets self' pair = Some (snapshot_ledger items) \<and>
   l2_book self' pair = Some (snapshot_book items) \<and>
   (\<forall>e \<in> set (all_entries items). snapshot_ledger items (se_price e) \<noteq> None) \<and>
   dom (bids (snapshot_book items)) \<union> dom (asks (snapshot_book items))
     \<subseteq> dom (snapshot_ledger items) \<and>
   dom (bids (snapshot_book empty_level_snapshot)) \<union> dom (asks (snapshot_book empty_level_snapshot))
     \<subset> dom (snapshot_ledger empty_level_snapshot) \<and>
   (\<forall>p t offset a. snapshot_ledger items p = Some t \<and> offset < t \<longrightarrow>
      dydx_book std self' (Channel_data mid offset [(p, a)] []) = (None, self', []) \<and>
      dydx_book std self' (Channel_data mid offset [] [(p, a)]) = (None, self', []))"
proof -
  assume std: "std mid = Inr pair"
    and self': "self' = fst (snd (dydx_book std self (Snapshot mid items)))"
  have o: "offsets self' pair = Some (snapshot_ledger items)"
    and b: "l2_book self' pair = Some (snapshot_book items)"
    by (simp_all add: self' dydx_book_snapshot' [of std mid pair, OF std] del: dydx_book.simps)
  have seeds: "\<forall>e \<in> set (all_entries items). snapshot_ledger items (se_price e) \<noteq> None"
    by (simp add: snapshot_ledger_seeds)
  have sub: "dom (bids (snapshot_book items)) \<union> dom (asks (snapshot_book items))
     \<subseteq> dom (snapshot_ledger items)"
  proof
    fix p assume "p \<in> dom (bids (snapshot_book items)) \<union> dom (asks (snapshot_book items))"
    then obtain sd s where "book_side sd (snapshot_book items) p = Some s"
      by (metis Un_iff book_side.simps domD)
    then obtain e where "e \<in> set (side_entries sd items)" "se_price e = p"
      using snapshot_book_levels by blast
    then have "e \<in> set (all_entries items)" using side_entries_subset by blast
    with \<open>se_price e = p\<close> show "p \<in> dom (snapshot_ledger items)"
      using snapshot_ledger_seeds by blast
  qed
  have strict: "dom (bids (snapshot_book empty_level_snapshot))
      \<union> dom (asks (snapshot_book empty_level_snapshot))
     \<subset> dom (snapshot_ledger empty_level_snapshot)"
    by (simp add: snapshot_book_def snapshot_ledger_def empty_level_snapshot_def side_entries_def
          key_side_def installed_def all_entries_def tokens_def last_wins_def psubset_eq)
  have disc: "dydx_book std self' (Channel_data mid offset [(p, a)] []) = (None, self', []) \<and>
      dydx_book std self' (Channel_data mid offset [] [(p, a)]) = (None, self', [])"
    if "snapshot_ledger items p = Some t" "offset < t" for p t offset a
  proof -
    have st: "fresh (snapshot_ledger items) offset [(p, a)] = []"
      using that by (simp add: fresh_def stale_def)
    have em: "fresh (snapshot_ledger items) offset [] = []"
      by (simp add: fresh_def)
    show ?thesis
      using dydx_book_all_stale [of std mid pair, OF std o b st em]
        dydx_book_all_stale [of std mid pair, OF std o b em st]
      by simp
  qed
  from o b seeds sub strict disc show ?thesis by blast
qed

theorem ledger_covers_snapshot_levels_witness:
  "token after_empty_level_snapshot ''BTC-USD'' 100 = Some 5 \<and>
   l2_book after_empty_level_snapshot ''BTC-USD'' = Some OrderBook \<and>
   dydx_book Inr after_empty_level_snapshot (Channel_data ''BTC-USD'' 4 [(100, 1)] [])
     = (None, after_empty_level_snapshot, [])"
proof -
  have l: "snapshot_ledger empty_level_snapshot = [100 \<mapsto> 5]"
    by (simp add: snapshot_ledger_def empty_level_snapshot_def all_entries_def tokens_def
          last_wins_def)
  have b: "snapshot_book empty_level_snapshot = OrderBook"
    by (simp add: snapshot_book_def empty_level_snapshot_def side_entries_def key_side_def
          installed_def last_wins_def OrderBook_def)
  have "Inr ''BTC-USD'' = (Inr ''BTC-USD'' :: error + symbol)" by simp
  note t = ledger_covers_snapshot_levels [of Inr "''BTC-USD''" "''BTC-USD''", OF this
      after_empty_level_snapshot_def]
  have o: "token after_empty_level_snapshot ''BTC-USD'' 100 = Some 5"
    using t by (simp add: l token_def del: dydx_book.simps)
  have k: "l2_book after_empty_level_snapshot ''BTC-USD'' = Some OrderBook"
    using t by (simp add: b del: dydx_book.simps)
  from t have "\<forall>p t offset a.
      snapshot_ledger empty_level_snapshot p = Some t \<and> offset < t \<longrightarrow>
      dydx_book Inr after_empty_level_snapshot (Channel_data ''BTC-USD'' offset [(p, a)] [])
        = (None, after_empty_level_snapshot, []) \<and>
      dydx_book Inr after_empty_level_snapshot (Channel_data ''BTC-USD'' offset [] [(p, a)])
        = (None, after_empty_level_snapshot, [])"
    by blast
  then have "snapshot_ledger empty_level_snapshot 100 = Some 5 \<and> (4::int) < 5 \<longrightarrow>
      dydx_book Inr after_empty_level_snapshot (Channel_data ''BTC-USD'' 4 [(100, 1)] [])
        = (None, after_empty_level_snapshot, [])"
    by blast
  then have d: "dydx_book Inr after_empty_level_snapshot (Channel_data ''BTC-USD'' 4 [(100, 1)] [])
        = (None, after_empty_level_snapshot, [])"
    by (simp add: l del: dydx_book.simps)
  from o k d show ?thesis by blast
qed

section \<open>Update batches\<close>

lemma after_scenario_A_state:
  "after_scenario_A =
    \<lparr>l2_book = [''BTC-USD'' \<mapsto> \<lparr>bids = [100 \<mapsto> 2], asks = [101 \<mapsto> 3]\<rparr>],
     offsets = [''BTC-USD'' \<mapsto> [100 \<mapsto> 5, 101 \<mapsto> 5]]\<rparr>"
proof -
  have b: "snapshot_book scenario_A = \<lparr>bids = [100 \<mapsto> 2], asks = [101 \<mapsto> 3]\<rparr>"
    by (simp add: snapshot_book_def scenario_A_def side_entries_def key_side_def installed_def
          last_wins_def)
  have l: "snapshot_ledger scenario_A = [100 \<mapsto> 5, 101 \<mapsto> 5]"
    by (simp add: snapshot_ledger_def scenario_A_def all_entries_def tokens_def last_wins_def)
  have "Inr ''BTC-USD'' = (Inr ''BTC-USD'' :: error + symbol)" by simp
  from dydx_book_snapshot' [of Inr "''BTC-USD''" "''BTC-USD''" dydx_init scenario_A, OF this]
  show ?thesis by (simp add: after_scenario_A_def b l dydx_init_def del: dydx_book.simps)
qed

lemma book_side_put_level:
  "book_side sd' (put_level sd data ob) q =
    (if sd' = sd \<and> q = fst data then (if snd data = 0 then None else Some (snd data))
     else book_side sd' ob q)"
  by (cases sd; cases sd') (simp_all add: put_level_def)

lemma book_side_put_levels_other:
  "sd' \<noteq> sd \<or> q \<notin> fst ` set ds \<Longrightarrow>
   book_side sd' (put_levels sd ds ob) q = book_side sd' ob q"
  by (induction ds arbitrary: ob) (auto simp: book_side_put_level)

lemma mark_apply: "mark offset ds led q = (if q \<in> fst ` set ds then Some offset else led q)"
  by (induction ds arbitrary: led) auto

lemma fresh_prices: "x \<in> set (fresh led offset ds) \<Longrightarrow> \<not> stale led (fst x) offset"
  by (simp add: fresh_def)

lemma stale_not_fresh: "stale led p offset \<Longrightarrow> p \<notin> fst ` set (fresh led offset ds)"
  by (auto dest: fresh_prices)

lemma not_stale_iff:
  "\<not> stale led p offset \<longleftrightarrow> led p = None \<or> (\<exists>t. led p = Some t \<and> t \<le> offset)"
  by (auto simp: stale_def split: option.splits)


lemma dydx_book_update_parts:
  fixes offset :: int and bds aks :: "level list"
  assumes "std mid = Inr pair" and "offsets self pair = Some led" and "l2_book self pair = Some ob"
  defines "r \<equiv> dydx_book std self (Channel_data mid offset bds aks)"
  defines "ob' \<equiv> put_levels ASK (fresh led offset aks) (put_levels BID (fresh led offset bds) ob)"
  shows "fst r = None"
    and "l2_book (fst (snd r)) pair = Some ob'"
    and "offsets (fst (snd r)) pair
          = Some (mark offset (fresh led offset aks) (mark offset (fresh led offset bds) led))"
    and "snd (snd r) =
          (if fresh led offset bds \<noteq> [] \<or> fresh led offset aks \<noteq> [] then
             [\<lparr>be_symbol = pair, be_book = ob',
               be_delta = Some \<lparr>delta_bid = fresh led offset bds, delta_ask = fresh led offset aks\<rparr>\<rparr>]
           else [])"
  unfolding r_def ob'_def
  by (simp_all add: dydx_book_update [of std mid pair, OF assms(1-3)] del: dydx_book.simps)

lemma after_empty_level_snapshot_state:
  "after_empty_level_snapshot =
    \<lparr>l2_book = [''BTC-USD'' \<mapsto> OrderBook], offsets = [''BTC-USD'' \<mapsto> [100 \<mapsto> 5]]\<rparr>"
proof -
  have l: "snapshot_ledger empty_level_snapshot = [100 \<mapsto> 5]"
    by (simp add: snapshot_ledger_def empty_level_snapshot_def all_entries_def tokens_def
          last_wins_def)
  have b: "snapshot_book empty_level_snapshot = OrderBook"
    by (simp add: snapshot_book_def empty_level_snapshot_def side_entries_def key_side_def
          installed_def last_wins_def OrderBook_def)
  have "Inr ''BTC-USD'' = (Inr ''BTC-USD'' :: error + symbol)" by simp
  from dydx_book_snapshot' [of Inr "''BTC-USD''" "''BTC-USD''" dydx_init empty_level_snapshot, OF this]
  show ?thesis
    by (simp add: after_empty_level_snapshot_def b l dydx_init_def del: dydx_book.simps)
qed

lemma dydx_book_one_level:
  assumes "std mid = Inr pair" and "offsets self pair = Some led" and "l2_book self pair = Some ob"
    and "\<not> stale led (fst data) offset"
  shows "dydx_book std self (one_level sd mid offset data) =
    (None,
     \<lparr>l2_book = (l2_book self)(pair \<mapsto> put_level sd data ob),
      offsets = (offsets self)(pair \<mapsto> led(fst data \<mapsto> offset))\<rparr>,
     [\<lparr>be_symbol = pair, be_book = put_level sd data ob,
       be_delta = Some (delta_append sd data empty_delta)\<rparr>])"
proof -
  have f: "fresh led offset [data] = [data]" "fresh led offset [] = []"
    using assms(4) by (simp_all add: fresh_def)
  show ?thesis
  proof (cases sd)
    case BID
    then show ?thesis
      using dydx_book_update [where std = std and mid = mid and offset = offset
          and bs = "[data]" and as = "[]", OF assms(1-3)]
      by (simp add: one_level_def f empty_delta_def del: dydx_book.simps fun_upd_apply)
  next
    case ASK
    then show ?thesis
      using dydx_book_update [where std = std and mid = mid and offset = offset
          and bs = "[]" and as = "[data]", OF assms(1-3)]
      by (simp add: one_level_def f empty_delta_def del: dydx_book.simps fun_upd_apply)
  qed
qed

lemma put_levels_append:
  "put_levels sd (xs @ ys) ob = put_levels sd ys (put_levels sd xs ob)"
  by (induction xs arbitrary: ob) simp_all

lemma put_levels_last:
  "p \<notin> fst ` set ys \<Longrightarrow>
   book_side sd (put_levels sd (xs @ (p, a) # ys) ob) p = (if a = 0 then None else Some a)"
  by (simp add: put_levels_append book_side_put_levels_other book_side_put_level)

lemma bids_put_levels_other:
  "sd \<noteq> BID \<or> q \<notin> fst ` set ds \<Longrightarrow> bids (put_levels sd ds ob) q = bids ob q"
  using book_side_put_levels_other [of BID sd q ds ob] by auto

lemma asks_put_levels_other:
  "sd \<noteq> ASK \<or> q \<notin> fst ` set ds \<Longrightarrow> asks (put_levels sd ds ob) q = asks ob q"
  using book_side_put_levels_other [of ASK sd q ds ob] by auto

lemma fresh_append: "fresh led offset (xs @ ys) = fresh led offset xs @ fresh led offset ys"
  by (simp add: fresh_def)

lemma fresh_subset: "set (fresh led offset ds) \<subseteq> set ds"
  by (simp add: fresh_def)

lemma fresh_member:
  "\<not> stale led p offset \<Longrightarrow> p \<in> fst ` set (fresh led offset ds) \<longleftrightarrow> p \<in> fst ` set ds"
  by (force simp: fresh_def)

lemma fresh_last:
  assumes "\<not> stale led p offset" and "ds = xs @ (p, a) # ys" and "p \<notin> fst ` set ys"
  shows "book_side sd (put_levels sd (fresh led offset ds) ob) p = (if a = 0 then None else Some a)"
proof -
  have "fresh led offset ds = fresh led offset xs @ (p, a) # fresh led offset ys"
    using assms(1,2) by (simp add: fresh_append fresh_Cons)
  moreover have "p \<notin> fst ` set (fresh led offset ys)"
    using assms(3) fresh_subset [of led offset ys] by auto
  ultimately show ?thesis by (simp add: put_levels_last)
qed

lemma update_at_price:
  fixes led :: ledger and ob :: order_book and bds aks :: "level list" and offset :: int
  defines "ob' \<equiv> put_levels ASK (fresh led offset aks) (put_levels BID (fresh led offset bds) ob)"
  defines "led' \<equiv> mark offset (fresh led offset aks) (mark offset (fresh led offset bds) led)"
  shows "stale led p offset \<or> p \<notin> fst ` set (bds @ aks) \<Longrightarrow>
           led' p = led p \<and> bids ob' p = bids ob p \<and> asks ob' p = asks ob p"
    and "\<not> stale led p offset \<Longrightarrow> p \<in> fst ` set (bds @ aks) \<Longrightarrow> led' p = Some offset"
    and "\<not> stale led p offset \<Longrightarrow> bds = xs @ (p, a) # ys \<Longrightarrow> p \<notin> fst ` set ys \<Longrightarrow>
           bids ob' p = (if a = 0 then None else Some a)"
    and "\<not> stale led p offset \<Longrightarrow> aks = xs @ (p, a) # ys \<Longrightarrow> p \<notin> fst ` set ys \<Longrightarrow>
           asks ob' p = (if a = 0 then None else Some a)"
    and "p \<notin> fst ` set bds \<Longrightarrow> bids ob' p = bids ob p"
    and "p \<notin> fst ` set aks \<Longrightarrow> asks ob' p = asks ob p"
proof -
  have bid: "bids ob' p = book_side BID (put_levels BID (fresh led offset bds) ob) p" for p
    using book_side_put_levels_other [of BID ASK p "fresh led offset aks"] by (simp add: ob'_def)
  have ask: "asks ob' p = book_side ASK
      (put_levels ASK (fresh led offset aks) (put_levels BID (fresh led offset bds) ob)) p" for p
    by (simp add: ob'_def)
  have ask0: "book_side ASK (put_levels BID (fresh led offset bds) ob) p = asks ob p" for p
    using book_side_put_levels_other [of ASK BID p "fresh led offset bds" ob] by simp
  show "led' p = led p \<and> bids ob' p = bids ob p \<and> asks ob' p = asks ob p"
    if "stale led p offset \<or> p \<notin> fst ` set (bds @ aks)"
  proof -
    have nb: "p \<notin> fst ` set (fresh led offset bds)" and na: "p \<notin> fst ` set (fresh led offset aks)"
      using that stale_not_fresh [of led p offset] fresh_subset [of led offset bds]
        fresh_subset [of led offset aks] by auto
    then show ?thesis
      by (simp add: led'_def ob'_def mark_apply bids_put_levels_other asks_put_levels_other)
  qed
  show "led' p = Some offset" if "\<not> stale led p offset" "p \<in> fst ` set (bds @ aks)"
  proof -
    have "p \<in> fst ` set (fresh led offset bds) \<or> p \<in> fst ` set (fresh led offset aks)"
      using that by (simp add: fresh_member image_Un)
    then show ?thesis by (auto simp: led'_def mark_apply)
  qed
  show "bids ob' p = (if a = 0 then None else Some a)"
    if "\<not> stale led p offset" "bds = xs @ (p, a) # ys" "p \<notin> fst ` set ys"
    using fresh_last [OF that, of BID ob] by (simp add: bid)
  show "asks ob' p = (if a = 0 then None else Some a)"
    if "\<not> stale led p offset" "aks = xs @ (p, a) # ys" "p \<notin> fst ` set ys"
    using fresh_last [OF that, of ASK "put_levels BID (fresh led offset bds) ob"] by (simp add: ask)
  show "bids ob' p = bids ob p" if "p \<notin> fst ` set bds"
  proof -
    have "p \<notin> fst ` set (fresh led offset bds)"
      using that fresh_subset [of led offset bds] by auto
    then show ?thesis by (simp add: ob'_def bids_put_levels_other)
  qed
  show "asks ob' p = asks ob p" if "p \<notin> fst ` set aks"
  proof -
    have "p \<notin> fst ` set (fresh led offset aks)"
      using that fresh_subset [of led offset aks] by auto
    then show ?thesis by (simp add: ob'_def asks_put_levels_other)
  qed
qed

text \<open>
  C1. For an adapter that holds a book \<open>ob\<close> and a ledger \<open>led\<close> for the symbol: a level
  passes the offset test exactly when the ledger has no token for its price or the offset
  of the message is at least that token. One step of the loop applies a level that passes
  (it records the offset, appends the level to the delta and removes or stores the price)
  and leaves everything as it is otherwise. For the whole message, the handler leaves the
  book \<open>ob'\<close> and the ledger \<open>led'\<close> for the symbol and emits nothing when no level passes,
  and one event with the book \<open>ob'\<close> and exactly the levels that pass otherwise; and at any
  price \<open>p\<close>: when the token of \<open>p\<close> is above the offset of the message, or no level has
  the price \<open>p\<close>, the token and both sides of the book are unchanged at \<open>p\<close>; when \<open>p\<close>
  passes and some level has the price \<open>p\<close>, the token of \<open>p\<close> is the offset of the message,
  and each side of the book holds at \<open>p\<close> what the last level of that side with the price
  \<open>p\<close> says (nothing for the size 0, the size otherwise), or what it held when that side
  has no level at \<open>p\<close>.
\<close>

theorem stale_levels_are_discarded:
  "std mid = Inr pair \<Longrightarrow> offsets self pair = Some led \<Longrightarrow> l2_book self pair = Some ob \<Longrightarrow>
   r = dydx_book std self (Channel_data mid offset bds aks) \<Longrightarrow>
   (\<not> stale led p offset \<longleftrightarrow> led p = None \<or> (\<exists>t. led p = Some t \<and> t \<le> offset)) \<and>
   book_level pair offset sd (p, a) \<lparr>ls_self = self, ls_delta = d, ls_updated = u\<rparr> =
     (None,
      if stale led p offset then \<lparr>ls_self = self, ls_delta = d, ls_updated = u\<rparr>
      else \<lparr>ls_self = \<lparr>l2_book = (l2_book self)(pair \<mapsto> put_level sd (p, a) ob),
                        offsets = (offsets self)(pair \<mapsto> led(p \<mapsto> offset))\<rparr>,
            ls_delta = delta_append sd (p, a) d, ls_updated = True\<rparr>) \<and>
   fst r = None \<and>
   (\<forall>ev \<in> set (snd (snd r)).
      be_delta ev = Some \<lparr>delta_bid = filter (\<lambda>x. \<not> stale led (fst x) offset) bds,
                          delta_ask = filter (\<lambda>x. \<not> stale led (fst x) offset) aks\<rparr>) \<and>
   (stale led p offset \<longrightarrow>
      token (fst (snd r)) pair p = led p \<and>
      (\<exists>ob'. l2_book (fst (snd r)) pair = Some ob' \<and>
         bids ob' p = bids ob p \<and> asks ob' p = asks ob p)) \<and>
   (\<exists>ob' led'.
      fst (snd r) = \<lparr>l2_book = (l2_book self)(pair \<mapsto> ob'),
                     offsets = (offsets self)(pair \<mapsto> led')\<rparr> \<and>
      snd (snd r) =
        (if \<forall>x \<in> set bds \<union> set aks. stale led (fst x) offset then []
         else [\<lparr>be_symbol = pair, be_book = ob',
                be_delta = Some \<lparr>delta_bid = filter (\<lambda>x. \<not> stale led (fst x) offset) bds,
                                  delta_ask = filter (\<lambda>x. \<not> stale led (fst x) offset) aks\<rparr>\<rparr>]) \<and>
      (stale led p offset \<or> p \<notin> fst ` set (bds @ aks) \<longrightarrow>
         led' p = led p \<and> bids ob' p = bids ob p \<and> asks ob' p = asks ob p) \<and>
      (\<not> stale led p offset \<and> p \<in> fst ` set (bds @ aks) \<longrightarrow> led' p = Some offset) \<and>
      (\<not> stale led p offset \<longrightarrow>
         (\<forall>xs sz ys. bds = xs @ (p, sz) # ys \<and> p \<notin> fst ` set ys \<longrightarrow>
            bids ob' p = (if sz = 0 then None else Some sz)) \<and>
         (\<forall>xs sz ys. aks = xs @ (p, sz) # ys \<and> p \<notin> fst ` set ys \<longrightarrow>
            asks ob' p = (if sz = 0 then None else Some sz)) \<and>
         (p \<notin> fst ` set bds \<longrightarrow> bids ob' p = bids ob p) \<and>
         (p \<notin> fst ` set aks \<longrightarrow> asks ob' p = asks ob p)))"
proof -
  assume std: "std mid = Inr pair" and o: "offsets self pair = Some led"
    and b: "l2_book self pair = Some ob"
    and r: "r = dydx_book std self (Channel_data mid offset bds aks)"
  note parts = dydx_book_update_parts [where std = std and mid = mid and offset = offset
      and bds = bds and aks = aks, OF std o b, folded r]
  have step: "book_level pair offset sd (p, a) \<lparr>ls_self = self, ls_delta = d, ls_updated = u\<rparr> =
     (None,
      if stale led p offset then \<lparr>ls_self = self, ls_delta = d, ls_updated = u\<rparr>
      else \<lparr>ls_self = \<lparr>l2_book = (l2_book self)(pair \<mapsto> put_level sd (p, a) ob),
                        offsets = (offsets self)(pair \<mapsto> led(p \<mapsto> offset))\<rparr>,
            ls_delta = delta_append sd (p, a) d, ls_updated = True\<rparr>)"
  proof (cases "stale led p offset")
    case True
    then show ?thesis
      using book_level_stale [of "\<lparr>ls_self = self, ls_delta = d, ls_updated = u\<rparr>" pair led "(p, a)"
          offset sd] o
      by simp
  next
    case False
    then show ?thesis
      using book_level_fresh [of "\<lparr>ls_self = self, ls_delta = d, ls_updated = u\<rparr>" pair led ob
          "(p, a)" offset sd] o b
      by simp
  qed
  have delta: "\<forall>ev \<in> set (snd (snd r)).
      be_delta ev = Some \<lparr>delta_bid = filter (\<lambda>x. \<not> stale led (fst x) offset) bds,
                          delta_ask = filter (\<lambda>x. \<not> stale led (fst x) offset) aks\<rparr>"
    by (simp add: parts(4) fresh_def)
  have kept: "token (fst (snd r)) pair p = led p \<and>
      (\<exists>ob'. l2_book (fst (snd r)) pair = Some ob' \<and>
         bids ob' p = bids ob p \<and> asks ob' p = asks ob p)" if st: "stale led p offset"
  proof -
    have nb: "p \<notin> fst ` set (fresh led offset bds)" and na: "p \<notin> fst ` set (fresh led offset aks)"
      using st by (rule stale_not_fresh)+
    have t: "token (fst (snd r)) pair p = led p"
      using nb na by (simp add: token_def parts(3) mark_apply)
    have "book_side sd' (put_levels ASK (fresh led offset aks)
            (put_levels BID (fresh led offset bds) ob)) p = book_side sd' ob p" for sd'
      using nb na by (simp add: book_side_put_levels_other)
    from this [of BID] this [of ASK] t parts(2) show ?thesis by simp
  qed
  define ob' where
    "ob' = put_levels ASK (fresh led offset aks) (put_levels BID (fresh led offset bds) ob)"
  define led' where
    "led' = mark offset (fresh led offset aks) (mark offset (fresh led offset bds) led)"
  have a1: "led' p = led p \<and> bids ob' p = bids ob p \<and> asks ob' p = asks ob p"
    if "stale led p offset \<or> p \<notin> fst ` set (bds @ aks)"
    using that unfolding ob'_def led'_def by (rule update_at_price(1))
  have a2: "led' p = Some offset" if "\<not> stale led p offset" "p \<in> fst ` set (bds @ aks)"
    using that unfolding led'_def by (rule update_at_price(2))
  have a3: "bids ob' p = (if sz = 0 then None else Some sz)"
    if "\<not> stale led p offset" "bds = xs @ (p, sz) # ys" "p \<notin> fst ` set ys" for xs sz ys
    using that unfolding ob'_def by (rule update_at_price(3))
  have a4: "asks ob' p = (if sz = 0 then None else Some sz)"
    if "\<not> stale led p offset" "aks = xs @ (p, sz) # ys" "p \<notin> fst ` set ys" for xs sz ys
    using that unfolding ob'_def by (rule update_at_price(4))
  have a5: "bids ob' p = bids ob p" if "p \<notin> fst ` set bds"
    using that unfolding ob'_def by (rule update_at_price(5))
  have a6: "asks ob' p = asks ob p" if "p \<notin> fst ` set aks"
    using that unfolding ob'_def by (rule update_at_price(6))
  have state: "fst (snd r) = \<lparr>l2_book = (l2_book self)(pair \<mapsto> ob'),
                     offsets = (offsets self)(pair \<mapsto> led')\<rparr>"
    unfolding r ob'_def led'_def
    by (simp add: dydx_book_update [of std mid pair, OF std o b] del: dydx_book.simps fun_upd_apply)
  have cond: "(fresh led offset bds \<noteq> [] \<or> fresh led offset aks \<noteq> [])
      \<longleftrightarrow> \<not> (\<forall>x \<in> set bds \<union> set aks. stale led (fst x) offset)"
    by (auto simp: fresh_Nil_iff)
  have events: "snd (snd r) =
        (if \<forall>x \<in> set bds \<union> set aks. stale led (fst x) offset then []
         else [\<lparr>be_symbol = pair, be_book = ob',
                be_delta = Some \<lparr>delta_bid = filter (\<lambda>x. \<not> stale led (fst x) offset) bds,
                                  delta_ask = filter (\<lambda>x. \<not> stale led (fst x) offset) aks\<rparr>\<rparr>])"
    unfolding parts(4) cond ob'_def by (simp add: fresh_def)
  have handler: "\<exists>ob' led'.
      fst (snd r) = \<lparr>l2_book = (l2_book self)(pair \<mapsto> ob'),
                     offsets = (offsets self)(pair \<mapsto> led')\<rparr> \<and>
      snd (snd r) =
        (if \<forall>x \<in> set bds \<union> set aks. stale led (fst x) offset then []
         else [\<lparr>be_symbol = pair, be_book = ob',
                be_delta = Some \<lparr>delta_bid = filter (\<lambda>x. \<not> stale led (fst x) offset) bds,
                                  delta_ask = filter (\<lambda>x. \<not> stale led (fst x) offset) aks\<rparr>\<rparr>]) \<and>
      (stale led p offset \<or> p \<notin> fst ` set (bds @ aks) \<longrightarrow>
         led' p = led p \<and> bids ob' p = bids ob p \<and> asks ob' p = asks ob p) \<and>
      (\<not> stale led p offset \<and> p \<in> fst ` set (bds @ aks) \<longrightarrow> led' p = Some offset) \<and>
      (\<not> stale led p offset \<longrightarrow>
         (\<forall>xs sz ys. bds = xs @ (p, sz) # ys \<and> p \<notin> fst ` set ys \<longrightarrow>
            bids ob' p = (if sz = 0 then None else Some sz)) \<and>
         (\<forall>xs sz ys. aks = xs @ (p, sz) # ys \<and> p \<notin> fst ` set ys \<longrightarrow>
            asks ob' p = (if sz = 0 then None else Some sz)) \<and>
         (p \<notin> fst ` set bds \<longrightarrow> bids ob' p = bids ob p) \<and>
         (p \<notin> fst ` set aks \<longrightarrow> asks ob' p = asks ob p))"
  proof (intro exI conjI impI allI)
    show "fst (snd r) = \<lparr>l2_book = (l2_book self)(pair \<mapsto> ob'),
                     offsets = (offsets self)(pair \<mapsto> led')\<rparr>"
      by (rule state)
  qed (use events a1 a2 a3 a4 a5 a6 in \<open>blast+\<close>)
  from not_stale_iff [of led p offset] step parts(1) delta kept handler show ?thesis by blast
qed




theorem stale_levels_are_discarded_witness:
  "fst (dydx_book Inr after_scenario_A (Channel_data ''BTC-USD'' 4 [(100, 1)] [])) = None \<and>
   snd (snd (dydx_book Inr after_scenario_A (Channel_data ''BTC-USD'' 4 [(100, 1)] []))) = [] \<and>
   token (fst (snd (dydx_book Inr after_scenario_A (Channel_data ''BTC-USD'' 4 [(100, 1)] []))))
     ''BTC-USD'' 100 = Some 5 \<and>
   book_level ''BTC-USD'' 4 BID (100, 1)
     \<lparr>ls_self = after_scenario_A, ls_delta = empty_delta, ls_updated = False\<rparr> =
     (None, \<lparr>ls_self = after_scenario_A, ls_delta = empty_delta, ls_updated = False\<rparr>) \<and>
   fst (dydx_book Inr after_scenario_A (Channel_data ''BTC-USD'' 6 [(100, 1)] [])) = None \<and>
   token (fst (snd (dydx_book Inr after_scenario_A (Channel_data ''BTC-USD'' 6 [(100, 1)] []))))
     ''BTC-USD'' 100 = Some 6 \<and>
   map be_delta (snd (snd (dydx_book Inr after_scenario_A (Channel_data ''BTC-USD'' 6 [(100, 1)] []))))
     = [Some \<lparr>delta_bid = [(100, 1)], delta_ask = []\<rparr>] \<and>
   bids (be_book (hd (snd (snd (dydx_book Inr after_scenario_A
       (Channel_data ''BTC-USD'' 6 [(100, 1)] [])))))) 100 = Some 1"
proof -
  have std: "Inr ''BTC-USD'' = (Inr ''BTC-USD'' :: error + symbol)" by simp
  have o: "offsets after_scenario_A ''BTC-USD'' = Some [100 \<mapsto> 5, 101 \<mapsto> 5]"
    and b: "l2_book after_scenario_A ''BTC-USD'' = Some \<lparr>bids = [100 \<mapsto> 2], asks = [101 \<mapsto> 3]\<rparr>"
    by (simp_all add: after_scenario_A_state)
  have st: "stale [100 \<mapsto> 5, 101 \<mapsto> 5] 100 4"
    by (simp add: stale_def)
  have ns: "\<not> stale [100 \<mapsto> 5, 101 \<mapsto> 5] 100 6"
    by (simp add: stale_def)
  define r4 where "r4 = dydx_book Inr after_scenario_A (Channel_data ''BTC-USD'' 4 [(100, 1)] [])"
  define r6 where "r6 = dydx_book Inr after_scenario_A (Channel_data ''BTC-USD'' 6 [(100, 1)] [])"
  note t4 = stale_levels_are_discarded [where std = Inr and mid = "''BTC-USD''"
      and offset = 4 and bds = "[(100, 1)]" and aks = "[]" and p = 100 and sd = BID and a = 1
      and d = empty_delta and u = False, OF std o b r4_def]
  note t6 = stale_levels_are_discarded [where std = Inr and mid = "''BTC-USD''"
      and offset = 6 and bds = "[(100, 1)]" and aks = "[]" and p = 100 and sd = BID and a = 1
      and d = empty_delta and u = False, OF std o b r6_def]
  note step4 = t4 [THEN conjunct2, THEN conjunct1]
  note none4 = t4 [THEN conjunct2, THEN conjunct2, THEN conjunct1]
  note kept4 = t4 [THEN conjunct2, THEN conjunct2, THEN conjunct2, THEN conjunct2, THEN conjunct1]
  note hand4 = t4 [THEN conjunct2, THEN conjunct2, THEN conjunct2, THEN conjunct2, THEN conjunct2]
  note none6 = t6 [THEN conjunct2, THEN conjunct2, THEN conjunct1]
  note hand6 = t6 [THEN conjunct2, THEN conjunct2, THEN conjunct2, THEN conjunct2, THEN conjunct2]
  have s4: "book_level ''BTC-USD'' 4 BID (100, 1)
       \<lparr>ls_self = after_scenario_A, ls_delta = empty_delta, ls_updated = False\<rparr> =
       (None, \<lparr>ls_self = after_scenario_A, ls_delta = empty_delta, ls_updated = False\<rparr>)"
    using step4 st by simp
  have k4: "token (fst (snd r4)) ''BTC-USD'' 100 = Some 5"
    using kept4 st by simp
  from hand4 obtain ob4 led4 where ev4: "snd (snd r4) =
        (if \<forall>x \<in> set [(100, 1::decimal)] \<union> set ([]::level list). stale [100 \<mapsto> 5, 101 \<mapsto> 5] (fst x) 4 then []
         else [\<lparr>be_symbol = ''BTC-USD'', be_book = ob4,
                be_delta = Some \<lparr>delta_bid = filter (\<lambda>x. \<not> stale [100 \<mapsto> 5, 101 \<mapsto> 5] (fst x) 4) [(100, 1)],
                                  delta_ask = filter (\<lambda>x. \<not> stale [100 \<mapsto> 5, 101 \<mapsto> 5] (fst x) 4) []\<rparr>\<rparr>])"
    by (elim exE conjE) (rule that)
  have e4: "snd (snd r4) = []"
    using st by (simp add: ev4)
  from hand6 obtain ob6 led6 where
      st6: "fst (snd r6) = \<lparr>l2_book = (l2_book after_scenario_A)(''BTC-USD'' \<mapsto> ob6),
                     offsets = (offsets after_scenario_A)(''BTC-USD'' \<mapsto> led6)\<rparr>"
    and ev6: "snd (snd r6) =
        (if \<forall>x \<in> set [(100::decimal, 1::decimal)] \<union> set ([]::level list). stale [100 \<mapsto> 5, 101 \<mapsto> 5] (fst x) 6 then []
         else [\<lparr>be_symbol = ''BTC-USD'', be_book = ob6,
                be_delta = Some \<lparr>delta_bid = filter (\<lambda>x. \<not> stale [100 \<mapsto> 5, 101 \<mapsto> 5] (fst x) 6) [(100::decimal, 1::decimal)],
                                  delta_ask = filter (\<lambda>x. \<not> stale [100 \<mapsto> 5, 101 \<mapsto> 5] (fst x) 6) ([]::level list)\<rparr>\<rparr>])"
    and un6: "stale [100 \<mapsto> 5, 101 \<mapsto> 5] (100::decimal) 6 \<or> (100::decimal) \<notin> fst ` set ([(100::decimal, 1::decimal)] @ ([]::level list)) \<longrightarrow>
         led6 (100::decimal) = [100 \<mapsto> 5, 101 \<mapsto> 5] (100::decimal) \<and> bids ob6 (100::decimal) = bids \<lparr>bids = [100 \<mapsto> 2], asks = [101 \<mapsto> 3]\<rparr> (100::decimal) \<and>
         asks ob6 (100::decimal) = asks \<lparr>bids = [100 \<mapsto> 2], asks = [101 \<mapsto> 3]\<rparr> (100::decimal)"
    and tk6: "\<not> stale [100 \<mapsto> 5, 101 \<mapsto> 5] (100::decimal) 6 \<and> (100::decimal) \<in> fst ` set ([(100::decimal, 1::decimal)] @ ([]::level list))
        \<longrightarrow> led6 (100::decimal) = Some 6"
    and bd6: "\<not> stale [100 \<mapsto> 5, 101 \<mapsto> 5] (100::decimal) 6 \<longrightarrow>
         (\<forall>xs sz ys. [(100::decimal, 1::decimal)] = xs @ ((100::decimal), sz) # ys \<and> (100::decimal) \<notin> fst ` set ys \<longrightarrow>
            bids ob6 (100::decimal) = (if sz = 0 then None else Some sz)) \<and>
         (\<forall>xs sz ys. ([]::level list) = xs @ ((100::decimal), sz) # ys \<and> (100::decimal) \<notin> fst ` set ys \<longrightarrow>
            asks ob6 (100::decimal) = (if sz = 0 then None else Some sz)) \<and>
         ((100::decimal) \<notin> fst ` set [(100::decimal, 1::decimal)] \<longrightarrow> bids ob6 (100::decimal) = bids \<lparr>bids = [100 \<mapsto> 2], asks = [101 \<mapsto> 3]\<rparr> (100::decimal)) \<and>
         ((100::decimal) \<notin> fst ` set ([]::level list) \<longrightarrow> asks ob6 (100::decimal) = asks \<lparr>bids = [100 \<mapsto> 2], asks = [101 \<mapsto> 3]\<rparr> (100::decimal))"
    by (elim exE conjE) (rule that)
  have l6: "led6 100 = Some 6" using tk6 ns by simp
  have k6: "token (fst (snd r6)) ''BTC-USD'' 100 = Some 6"
    by (simp add: st6 token_def l6)
  have b6: "bids ob6 100 = Some 1"
    using bd6 [THEN mp, OF ns, THEN conjunct1, rule_format, of "[]" 1 "[]"] by simp
  have e6: "snd (snd r6) = [\<lparr>be_symbol = ''BTC-USD'', be_book = ob6,
      be_delta = Some \<lparr>delta_bid = [(100, 1)], delta_ask = []\<rparr>\<rparr>]"
    using ns by (simp add: ev6)
  from none4 e4 k4 s4 none6 k6 e6 b6 show ?thesis
    unfolding r4_def r6_def by (simp del: dydx_book.simps)
qed

text \<open>
  C4. For an adapter that holds a book and a ledger for the symbol: when every level of an
  update message fails the offset test, nothing is emitted and the adapter is unchanged;
  when some level passes, exactly one event is emitted, with the book as it then is and
  with a delta that holds exactly the levels that pass.
\<close>

theorem empty_delta_suppressed:
  "std mid = Inr pair \<Longrightarrow> offsets self pair = Some led \<Longrightarrow> l2_book self pair = Some ob \<Longrightarrow>
   r = dydx_book std self (Channel_data mid offset bds aks) \<Longrightarrow>
   fst r = None \<and>
   ((\<forall>x \<in> set bds \<union> set aks. stale led (fst x) offset) \<longrightarrow>
      snd (snd r) = [] \<and> fst (snd r) = self) \<and>
   ((\<exists>x \<in> set bds \<union> set aks. \<not> stale led (fst x) offset) \<longrightarrow>
      (\<exists>ob'. l2_book (fst (snd r)) pair = Some ob' \<and>
         snd (snd r) =
           [\<lparr>be_symbol = pair, be_book = ob',
             be_delta = Some \<lparr>delta_bid = filter (\<lambda>x. \<not> stale led (fst x) offset) bds,
                               delta_ask = filter (\<lambda>x. \<not> stale led (fst x) offset) aks\<rparr>\<rparr>]))"
proof -
  assume std: "std mid = Inr pair" and o: "offsets self pair = Some led"
    and b: "l2_book self pair = Some ob"
    and r: "r = dydx_book std self (Channel_data mid offset bds aks)"
  note parts = dydx_book_update_parts [where std = std and mid = mid and offset = offset
      and bds = bds and aks = aks, OF std o b, folded r]
  have none: "snd (snd r) = [] \<and> fst (snd r) = self"
    if "\<forall>x \<in> set bds \<union> set aks. stale led (fst x) offset"
  proof -
    from that have "fresh led offset bds = []" "fresh led offset aks = []"
      by (simp_all add: fresh_Nil_iff)
    from dydx_book_all_stale [of std mid pair, OF std o b this] show ?thesis
      by (simp add: r del: dydx_book.simps)
  qed
  have one: "\<exists>ob'. l2_book (fst (snd r)) pair = Some ob' \<and>
         snd (snd r) =
           [\<lparr>be_symbol = pair, be_book = ob',
             be_delta = Some \<lparr>delta_bid = filter (\<lambda>x. \<not> stale led (fst x) offset) bds,
                               delta_ask = filter (\<lambda>x. \<not> stale led (fst x) offset) aks\<rparr>\<rparr>]"
    if "\<exists>x \<in> set bds \<union> set aks. \<not> stale led (fst x) offset"
  proof -
    from that have "fresh led offset bds \<noteq> [] \<or> fresh led offset aks \<noteq> []"
      by (auto simp: fresh_Nil_iff)
    then show ?thesis
      using parts(2) by (simp add: parts(4)) (simp add: fresh_def)
  qed
  from parts(1) none one show ?thesis by blast
qed

theorem empty_delta_suppressed_witness:
  "snd (snd (dydx_book Inr after_scenario_A (Channel_data ''BTC-USD'' 4 [(100, 1)] []))) = [] \<and>
   map be_delta (snd (snd (dydx_book Inr after_scenario_A (Channel_data ''BTC-USD'' 6 [(100, 1)] []))))
     = [Some \<lparr>delta_bid = [(100, 1)], delta_ask = []\<rparr>]"
proof -
  have std: "Inr ''BTC-USD'' = (Inr ''BTC-USD'' :: error + symbol)" by simp
  have o: "offsets after_scenario_A ''BTC-USD'' = Some [100 \<mapsto> 5, 101 \<mapsto> 5]"
    and b: "l2_book after_scenario_A ''BTC-USD'' = Some \<lparr>bids = [100 \<mapsto> 2], asks = [101 \<mapsto> 3]\<rparr>"
    by (simp_all add: after_scenario_A_state)
  note t4 = empty_delta_suppressed [where std = Inr and mid = "''BTC-USD''"
      and offset = 4 and bds = "[(100, 1)]" and aks = "[]", OF std o b refl]
  note t6 = empty_delta_suppressed [where std = Inr and mid = "''BTC-USD''"
      and offset = 6 and bds = "[(100, 1)]" and aks = "[]", OF std o b refl]
  have a: "snd (snd (dydx_book Inr after_scenario_A (Channel_data ''BTC-USD'' 4 [(100, 1)] []))) = []"
    using t4 by (simp add: stale_def del: dydx_book.simps)
  have c: "map be_delta
      (snd (snd (dydx_book Inr after_scenario_A (Channel_data ''BTC-USD'' 6 [(100, 1)] []))))
     = [Some \<lparr>delta_bid = [(100, 1)], delta_ask = []\<rparr>]"
    using t6 by (auto simp: stale_def simp del: dydx_book.simps)
  from a c show ?thesis by blast
qed

text \<open>
  C5, as the code has it. An update of one level of size 0 that passes the offset test
  removes the price from its side of the book, so that no level of size 0 is ever stored;
  when the price was not in the book, the book is unchanged. In both cases the token is
  recorded and one event is emitted whose delta holds the level \<open>(p, 0)\<close>.
\<close>

theorem zero_size_level_removed_and_reported:
  "std mid = Inr pair \<Longrightarrow> offsets self pair = Some led \<Longrightarrow> l2_book self pair = Some ob \<Longrightarrow>
   \<not> stale led p offset \<Longrightarrow>
   ob' = set_book_side sd ((book_side sd ob)(p := None)) ob \<Longrightarrow>
   dydx_book std self (one_level sd mid offset (p, 0)) =
    (None,
     \<lparr>l2_book = (l2_book self)(pair \<mapsto> ob'),
      offsets = (offsets self)(pair \<mapsto> led(p \<mapsto> offset))\<rparr>,
     [\<lparr>be_symbol = pair, be_book = ob',
       be_delta = Some (delta_append sd (p, 0) empty_delta)\<rparr>]) \<and>
   book_side sd ob' p = None \<and>
   (book_side sd ob p = None \<longrightarrow> ob' = ob)"
proof -
  assume std: "std mid = Inr pair" and o: "offsets self pair = Some led"
    and b: "l2_book self pair = Some ob" and f: "\<not> stale led p offset"
    and ob': "ob' = set_book_side sd ((book_side sd ob)(p := None)) ob"
  have pl: "put_level sd (p, 0) ob = ob'"
    by (simp add: put_level_def ob')
  have f': "\<not> stale led (fst (p, 0::decimal)) offset" using f by simp
  have h: "dydx_book std self (one_level sd mid offset (p, 0)) =
    (None,
     \<lparr>l2_book = (l2_book self)(pair \<mapsto> ob'),
      offsets = (offsets self)(pair \<mapsto> led(p \<mapsto> offset))\<rparr>,
     [\<lparr>be_symbol = pair, be_book = ob',
       be_delta = Some (delta_append sd (p, 0) empty_delta)\<rparr>])"
    using dydx_book_one_level [where std = std and mid = mid and data = "(p, 0)"
        and offset = offset and sd = sd, OF std o b f']
    by (simp add: pl del: dydx_book.simps fun_upd_apply)
  have gone: "book_side sd ob' p = None"
    by (cases sd) (simp_all add: ob')
  have noop: "ob' = ob" if "book_side sd ob p = None"
    using that by (cases sd) (simp_all add: ob' fun_upd_idem)
  from h gone noop show ?thesis by blast
qed

theorem zero_size_level_removed_and_reported_witness:
  "dydx_book Inr after_scenario_A (one_level BID ''BTC-USD'' 6 (100, 0)) =
    (None,
     \<lparr>l2_book = [''BTC-USD'' \<mapsto> \<lparr>bids = Map.empty, asks = [101 \<mapsto> 3]\<rparr>],
      offsets = [''BTC-USD'' \<mapsto> [100 \<mapsto> 6, 101 \<mapsto> 5]]\<rparr>,
     [\<lparr>be_symbol = ''BTC-USD'', be_book = \<lparr>bids = Map.empty, asks = [101 \<mapsto> 3]\<rparr>,
       be_delta = Some \<lparr>delta_bid = [(100, 0)], delta_ask = []\<rparr>\<rparr>])"
proof -
  have std: "Inr ''BTC-USD'' = (Inr ''BTC-USD'' :: error + symbol)" by simp
  have o: "offsets after_scenario_A ''BTC-USD'' = Some [100 \<mapsto> 5, 101 \<mapsto> 5]"
    and b: "l2_book after_scenario_A ''BTC-USD'' = Some \<lparr>bids = [100 \<mapsto> 2], asks = [101 \<mapsto> 3]\<rparr>"
    by (simp_all add: after_scenario_A_state)
  have f: "\<not> stale [100 \<mapsto> 5, 101 \<mapsto> 5] 100 6"
    by (simp add: stale_def)
  have ob': "\<lparr>bids = Map.empty, asks = [101 \<mapsto> 3]\<rparr>
     = set_book_side BID ((book_side BID \<lparr>bids = [100 \<mapsto> 2], asks = [101 \<mapsto> 3]\<rparr>)(100 := None))
         \<lparr>bids = [100 \<mapsto> 2], asks = [101 \<mapsto> 3]\<rparr>"
    by simp
  have l: "[100 \<mapsto> 5, 101 \<mapsto> 5](100 \<mapsto> 6) = [100::decimal \<mapsto> 6::int, 101 \<mapsto> 5]"
    by (auto simp: fun_eq_iff)
  have s: "(l2_book after_scenario_A)(''BTC-USD'' \<mapsto> x) = [''BTC-USD'' \<mapsto> x]"
    "(offsets after_scenario_A)(''BTC-USD'' \<mapsto> y) = [''BTC-USD'' \<mapsto> y]" for x y
    by (simp_all add: after_scenario_A_state)
  from zero_size_level_removed_and_reported [where std = Inr and mid = "''BTC-USD''"
      and sd = BID, OF std o b f ob']
  show ?thesis
    by (simp add: l s empty_delta_def del: dydx_book.simps fun_upd_apply)
qed

text \<open>
  C5, as stated, fails: for a price that the book does not hold, a level of size 0 that
  passes the offset test is in the delta of the emitted event.
\<close>

theorem zero_size_absent_level_counterexample:
  "l2_book after_empty_level_snapshot ''BTC-USD'' = Some OrderBook \<and>
   bids OrderBook 100 = None \<and>
   map be_delta (snd (snd (dydx_book Inr after_empty_level_snapshot
       (Channel_data ''BTC-USD'' 6 [(100, 0)] []))))
     = [Some \<lparr>delta_bid = [(100, 0)], delta_ask = []\<rparr>]"
proof -
  have std: "Inr ''BTC-USD'' = (Inr ''BTC-USD'' :: error + symbol)" by simp
  have o: "offsets after_empty_level_snapshot ''BTC-USD'' = Some [100 \<mapsto> 5]"
    and b: "l2_book after_empty_level_snapshot ''BTC-USD'' = Some OrderBook"
    by (simp_all add: after_empty_level_snapshot_state)
  have f: "fresh [100 \<mapsto> 5] 6 [(100, 0)] = [(100, 0)]" "fresh [100 \<mapsto> 5] 6 [] = []"
    by (simp_all add: fresh_def stale_def)
  from dydx_book_update [where std = Inr and mid = "''BTC-USD''" and offset = 6
      and bs = "[(100, 0)]" and as = "[]", OF std o b]
  have "map be_delta (snd (snd (dydx_book Inr after_empty_level_snapshot
       (Channel_data ''BTC-USD'' 6 [(100, 0)] []))))
     = [Some \<lparr>delta_bid = [(100, 0)], delta_ask = []\<rparr>]"
    by (simp add: f del: dydx_book.simps fun_upd_apply)
  with b show ?thesis by (simp add: OrderBook_def)
qed

section \<open>The ledger along a run\<close>

lemma token_kept_refl: "token_kept a a"
  by (simp add: token_kept_def split: option.split)

lemma token_kept_trans: "token_kept a b \<Longrightarrow> token_kept b c \<Longrightarrow> token_kept a c"
  by (auto simp: token_kept_def split: option.splits)

lemma token_kept_Some: "token_kept (Some t) b \<longleftrightarrow> (\<exists>t'. b = Some t' \<and> t \<le> t')"
  by (auto simp: token_kept_def split: option.splits)

lemma book_level_token:
  "book_level pair' offset sd data ls = (e, ls') \<Longrightarrow>
   token_kept (token (ls_self ls) pair p) (token (ls_self ls') pair p)"
  by (auto simp: book_level_def Let_def token_def token_kept_def stale_def
      split: option.splits if_splits)

lemma book_levels_token:
  "book_levels pair' offset sd ds ls = (e, ls') \<Longrightarrow>
   token_kept (token (ls_self ls) pair p) (token (ls_self ls') pair p)"
proof (induction ds arbitrary: ls)
  case Nil
  then show ?case by (simp add: token_kept_refl)
next
  case (Cons data ds)
  obtain e1 ls1 where step: "book_level pair' offset sd data ls = (e1, ls1)"
    by (cases "book_level pair' offset sd data ls")
  note k1 = book_level_token [OF step, of pair p]
  show ?case
  proof (cases e1)
    case None
    with Cons.prems step have "book_levels pair' offset sd ds ls1 = (e, ls')" by simp
    from Cons.IH [OF this] k1 show ?thesis by (blast intro: token_kept_trans)
  next
    case (Some err)
    with Cons.prems step have "ls' = ls1" by simp
    with k1 show ?thesis by simp
  qed
qed

lemma emit_book_state: "fst (snd (emit_book pair d self)) = self"
  by (simp add: emit_book_def split: option.split)

lemma dydx_book_update_token:
  "token_kept (token self pair p)
     (token (fst (snd (dydx_book std self (Channel_data mid offset bs as)))) pair p)"
proof (cases "std mid")
  case (Inl err)
  then show ?thesis by (simp add: token_kept_refl)
next
  case (Inr pair')
  let ?ls0 = "\<lparr>ls_self = self, ls_delta = empty_delta, ls_updated = False\<rparr>"
  obtain e1 ls1 where b: "book_levels pair' offset BID bs ?ls0 = (e1, ls1)"
    by (cases "book_levels pair' offset BID bs ?ls0")
  obtain e2 ls2 where a: "book_levels pair' offset ASK as ls1 = (e2, ls2)"
    by (cases "book_levels pair' offset ASK as ls1")
  have k1: "token_kept (token self pair p) (token (ls_self ls1) pair p)"
    using book_levels_token [OF b, of pair p] by simp
  have k2: "token_kept (token (ls_self ls1) pair p) (token (ls_self ls2) pair p)"
    using book_levels_token [OF a, of pair p] .
  show ?thesis
  proof (cases e1)
    case (Some err)
    with Inr b k1 show ?thesis by simp
  next
    case None
    note n1 = this
    show ?thesis
    proof (cases e2)
      case (Some err)
      with Inr b a n1 k1 k2 show ?thesis by (auto intro: token_kept_trans)
    next
      case None
      have "fst (snd (dydx_book std self (Channel_data mid offset bs as))) = ls_self ls2"
        using Inr b a n1 None by (simp add: emit_book_state)
      with k1 k2 show ?thesis by (auto intro: token_kept_trans)
    qed
  qed
qed

lemma handle_all_token:
  "\<forall>m \<in> set msgs. is_channel_data m \<Longrightarrow>
   token_kept (token self pair p) (token (fst (snd (handle_all std self msgs))) pair p)"
proof (induction msgs arbitrary: self)
  case Nil
  then show ?case by (simp add: token_kept_refl)
next
  case (Cons msg msgs)
  from Cons.prems obtain mid offset bs as where msg: "msg = Channel_data mid offset bs as"
    by (cases msg) auto
  obtain e1 s1 ev1 where h: "dydx_book std self msg = (e1, s1, ev1)"
    by (cases "dydx_book std self msg")
  have k1: "token_kept (token self pair p) (token s1 pair p)"
    using dydx_book_update_token [of self pair p std mid offset bs as] h msg by simp
  show ?case
  proof (cases e1)
    case (Some err)
    with h k1 show ?thesis by (simp del: dydx_book.simps)
  next
    case None
    have "token_kept (token s1 pair p) (token (fst (snd (handle_all std s1 msgs))) pair p)"
      using Cons.prems by (intro Cons.IH) simp
    moreover have "fst (snd (handle_all std self (msg # msgs))) = fst (snd (handle_all std s1 msgs))"
      using h None by (simp del: dydx_book.simps split: prod.split)
    ultimately show ?thesis using k1 by (auto intro: token_kept_trans)
  qed
qed

text \<open>
  C6. Along a run of update messages, for any symbols, the token recorded for one price of
  one symbol never decreases: if a token \<open>t\<close> is recorded before the run, a token is
  recorded after any first part of the run, it is at least \<open>t\<close>, and the token recorded
  after a further part is at least that one. A run that ends in a raise is included, with
  the state that the raise leaves.
\<close>

theorem recorded_tokens_non_decreasing:
  "\<forall>m \<in> set (ms1 @ ms2). is_channel_data m \<Longrightarrow> token self pair p = Some t \<Longrightarrow>
   handle_all std self ms1 = (None, s1, ev1) \<Longrightarrow> handle_all std s1 ms2 = (e2, s2, ev2) \<Longrightarrow>
   \<exists>t1 t2. token s1 pair p = Some t1 \<and> token s2 pair p = Some t2 \<and> t \<le> t1 \<and> t1 \<le> t2"
proof -
  assume all: "\<forall>m \<in> set (ms1 @ ms2). is_channel_data m" and t: "token self pair p = Some t"
    and h1: "handle_all std self ms1 = (None, s1, ev1)"
    and h2: "handle_all std s1 ms2 = (e2, s2, ev2)"
  have "token_kept (token self pair p) (token s1 pair p)"
    using handle_all_token [of ms1 self pair p std] all h1 by simp
  then obtain t1 where t1: "token s1 pair p = Some t1" "t \<le> t1"
    using t by (auto simp: token_kept_Some)
  have "token_kept (token s1 pair p) (token s2 pair p)"
    using handle_all_token [of ms2 s1 pair p std] all h2 by simp
  then obtain t2 where "token s2 pair p = Some t2" "t1 \<le> t2"
    using t1 by (auto simp: token_kept_Some)
  with t1 show ?thesis by blast
qed


theorem recorded_tokens_non_decreasing_witness:
  "token after_scenario_A ''BTC-USD'' 100 = Some 5 \<and>
   token (fst (snd (handle_all Inr after_scenario_A [scenario_B_stale]))) ''BTC-USD'' 100 = Some 5 \<and>
   token (fst (snd (handle_all Inr after_scenario_A [scenario_B_fresh]))) ''BTC-USD'' 100 = Some 6"
proof -
  have std: "Inr ''BTC-USD'' = (Inr ''BTC-USD'' :: error + symbol)" by simp
  have o: "offsets after_scenario_A ''BTC-USD'' = Some [100 \<mapsto> 5, 101 \<mapsto> 5]"
    and b: "l2_book after_scenario_A ''BTC-USD'' = Some \<lparr>bids = [100 \<mapsto> 2], asks = [101 \<mapsto> 3]\<rparr>"
    by (simp_all add: after_scenario_A_state)
  have t0: "token after_scenario_A ''BTC-USD'' 100 = Some 5"
    by (simp add: token_def o)
  have st: "dydx_book Inr after_scenario_A scenario_B_stale = (None, after_scenario_A, [])"
    unfolding scenario_B_stale_def
    by (rule dydx_book_all_stale [where std = Inr and mid = "''BTC-USD''", OF std o b])
       (simp_all add: fresh_def stale_def)
  have h1: "handle_all Inr after_scenario_A [scenario_B_stale] = (None, after_scenario_A, [])"
    by (simp add: st del: dydx_book.simps)
  obtain e2 s2 ev2 where h2: "handle_all Inr after_scenario_A [scenario_B_fresh] = (e2, s2, ev2)"
    by (cases "handle_all Inr after_scenario_A [scenario_B_fresh]")
  have all: "\<forall>m \<in> set ([scenario_B_stale] @ [scenario_B_fresh]). is_channel_data m"
    by (simp add: scenario_B_stale_def scenario_B_fresh_def)
  from recorded_tokens_non_decreasing [OF all t0 h1 h2]
  obtain t2 where t2: "token s2 ''BTC-USD'' 100 = Some t2" "5 \<le> t2"
    using t0 by auto
  have fr: "dydx_book Inr after_scenario_A scenario_B_fresh =
    (None,
     \<lparr>l2_book = (l2_book after_scenario_A)(''BTC-USD'' \<mapsto>
         put_level BID (100, 1) \<lparr>bids = [100 \<mapsto> 2], asks = [101 \<mapsto> 3]\<rparr>),
      offsets = (offsets after_scenario_A)(''BTC-USD'' \<mapsto> [100 \<mapsto> 5, 101 \<mapsto> 5](100 \<mapsto> 6))\<rparr>,
     [\<lparr>be_symbol = ''BTC-USD'',
       be_book = put_level BID (100, 1) \<lparr>bids = [100 \<mapsto> 2], asks = [101 \<mapsto> 3]\<rparr>,
       be_delta = Some (delta_append BID (100, 1) empty_delta)\<rparr>])"
  proof -
    have f: "\<not> stale [100 \<mapsto> 5, 101 \<mapsto> 5] (fst (100, 1::decimal)) 6"
      by (simp add: stale_def)
    from dydx_book_one_level [where std = Inr and mid = "''BTC-USD''" and sd = BID
        and data = "(100, 1)" and offset = 6, OF std o b f]
    show ?thesis
      by (simp add: scenario_B_fresh_def one_level_def del: dydx_book.simps fun_upd_apply)
  qed
  have "token s2 ''BTC-USD'' 100 = Some 6"
    using h2 by (auto simp: fr token_def simp del: dydx_book.simps)
  with t0 h1 h2 show ?thesis by (simp del: dydx_book.simps handle_all.simps)
qed

section \<open>The Upbit book\<close>

lemma dict_comp_closed:
  "dict_comp k v c us m = m ++ last_wins (map (\<lambda>u. (k u, v u)) (filter c us))"
proof (induction us arbitrary: m)
  case Nil
  then show ?case by (simp add: last_wins_Nil)
next
  case (Cons u us)
  show ?case
  proof (cases "c u")
    case True
    have "m ++ last_wins ((k u, v u) # map (\<lambda>u. (k u, v u)) (filter c us))
        = m(k u \<mapsto> v u) ++ last_wins (map (\<lambda>u. (k u, v u)) (filter c us))"
      using last_wins_Cons [of m "(k u, v u)"] by simp
    with True show ?thesis
      by (simp add: Cons.IH [of "m(k u \<mapsto> v u)"] del: fun_upd_apply)
  next
    case False
    then show ?thesis by (simp add: Cons.IH [of m])
  qed
qed

lemma order_book_replaced:
  "(ob::order_book)\<lparr>bids := b, asks := a\<rparr> = \<lparr>bids = b, asks = a\<rparr>"
  by (cases ob) simp

lemma upbit_book_closed:
  assumes "std (bm_cd msg) = Inr pair"
  shows "upbit_book std truediv self msg =
    (None,
     self\<lparr>upbit_l2_book := (upbit_l2_book self)(pair \<mapsto> replaced_book (bm_obu msg))\<rparr>,
     [\<lparr>be_symbol = pair, be_book = replaced_book (bm_obu msg), be_delta = None,
       be_timestamp = truediv (bm_tms msg) 1000\<rparr>])"
proof (cases "upbit_l2_book self pair")
  case None
  with assms show ?thesis
    by (simp add: upbit_book_def Let_def dict_comp_closed replaced_book_def
        order_book_replaced upbit_timestamp_normalize_def)
next
  case (Some ob)
  with assms show ?thesis
    by (simp add: upbit_book_def Let_def dict_comp_closed replaced_book_def
        order_book_replaced upbit_timestamp_normalize_def)
qed

text \<open>
  C3, as the code has it. Every Upbit orderbook message replaces both sides of the book
  of its symbol by the levels of the message whose price is above 0, whatever their size,
  and emits exactly one event, which carries the replaced book and a delta of \<open>None\<close>.
  Every level of the new book has a price above 0 and is a level of the message, and every
  price above 0 of the message is in the new book.
\<close>

theorem upbit_book_replaced_in_full:
  "std (bm_cd msg) = Inr pair \<Longrightarrow>
   upbit_book std truediv self msg =
    (None,
     self\<lparr>upbit_l2_book := (upbit_l2_book self)(pair \<mapsto> replaced_book (bm_obu msg))\<rparr>,
     [\<lparr>be_symbol = pair, be_book = replaced_book (bm_obu msg), be_delta = None,
       be_timestamp = truediv (bm_tms msg) 1000\<rparr>]) \<and>
   (\<forall>p s. bids (replaced_book (bm_obu msg)) p = Some s \<longrightarrow>
      0 < p \<and> (\<exists>u \<in> set (bm_obu msg). unit_bp u = p \<and> unit_bs u = s)) \<and>
   (\<forall>p s. asks (replaced_book (bm_obu msg)) p = Some s \<longrightarrow>
      0 < p \<and> (\<exists>u \<in> set (bm_obu msg). unit_ap u = p \<and> unit_as u = s)) \<and>
   (\<forall>u \<in> set (bm_obu msg).
      (0 < unit_bp u \<longrightarrow> bids (replaced_book (bm_obu msg)) (unit_bp u) \<noteq> None) \<and>
      (0 < unit_ap u \<longrightarrow> asks (replaced_book (bm_obu msg)) (unit_ap u) \<noteq> None))"
proof -
  assume std: "std (bm_cd msg) = Inr pair"
  have b: "0 < p \<and> (\<exists>u \<in> set (bm_obu msg). unit_bp u = p \<and> unit_bs u = s)"
    if "bids (replaced_book (bm_obu msg)) p = Some s" for p s
    using that by (auto simp: replaced_book_def dest!: last_wins_Some)
  have a: "0 < p \<and> (\<exists>u \<in> set (bm_obu msg). unit_ap u = p \<and> unit_as u = s)"
    if "asks (replaced_book (bm_obu msg)) p = Some s" for p s
    using that by (auto simp: replaced_book_def dest!: last_wins_Some)
  have ib: "bids (replaced_book (bm_obu msg)) (unit_bp u) \<noteq> None"
    if "u \<in> set (bm_obu msg)" "0 < unit_bp u" for u
  proof -
    have "(unit_bp u, unit_bs u)
        \<in> set (map (\<lambda>u. (unit_bp u, unit_bs u)) (filter (\<lambda>u. 0 < unit_bp u) (bm_obu msg)))"
      using that by auto
    then have "unit_bp u
        \<in> fst ` set (map (\<lambda>u. (unit_bp u, unit_bs u)) (filter (\<lambda>u. 0 < unit_bp u) (bm_obu msg)))"
      by (rule image_eqI [rotated]) simp
    then have "unit_bp u \<in> dom (bids (replaced_book (bm_obu msg)))"
      by (simp only: replaced_book_def last_wins_dom order_book.simps)
    then show ?thesis by auto
  qed
  have ia: "asks (replaced_book (bm_obu msg)) (unit_ap u) \<noteq> None"
    if "u \<in> set (bm_obu msg)" "0 < unit_ap u" for u
  proof -
    have "(unit_ap u, unit_as u)
        \<in> set (map (\<lambda>u. (unit_ap u, unit_as u)) (filter (\<lambda>u. 0 < unit_ap u) (bm_obu msg)))"
      using that by auto
    then have "unit_ap u
        \<in> fst ` set (map (\<lambda>u. (unit_ap u, unit_as u)) (filter (\<lambda>u. 0 < unit_ap u) (bm_obu msg)))"
      by (rule image_eqI [rotated]) simp
    then have "unit_ap u \<in> dom (asks (replaced_book (bm_obu msg)))"
      by (simp only: replaced_book_def last_wins_dom order_book.simps)
    then show ?thesis by auto
  qed
  from upbit_book_closed [of std msg pair truediv self, OF std] a b ia ib
  show ?thesis by blast
qed

theorem upbit_book_replaced_in_full_witness:
  "upbit_book Inr exact_truediv upbit_init scenario_C =
    (None,
     \<lparr>upbit_l2_book = [''KRW-BTC'' \<mapsto> \<lparr>bids = [100 \<mapsto> 2, 99 \<mapsto> 4], asks = [102 \<mapsto> 3]\<rparr>]\<rparr>,
     [\<lparr>be_symbol = ''KRW-BTC'',
       be_book = \<lparr>bids = [100 \<mapsto> 2, 99 \<mapsto> 4], asks = [102 \<mapsto> 3]\<rparr>,
       be_delta = None, be_timestamp = 1584263923\<rparr>])"
proof -
  have std: "Inr (bm_cd scenario_C) = (Inr ''KRW-BTC'' :: error + symbol)"
    by (simp add: scenario_C_def)
  have r: "replaced_book (bm_obu scenario_C) = \<lparr>bids = [100 \<mapsto> 2, 99 \<mapsto> 4], asks = [102 \<mapsto> 3]\<rparr>"
    by (simp add: replaced_book_def scenario_C_def last_wins_def)
  have t: "exact_truediv (bm_tms scenario_C) 1000 = 1584263923"
    by (simp add: exact_truediv_def scenario_C_def)
  from upbit_book_replaced_in_full [where std = Inr and msg = scenario_C
      and truediv = exact_truediv and self = upbit_init, OF std]
  show ?thesis by (simp add: r t upbit_init_def)
qed

text \<open>
  C3, as stated, fails: a bid of size 0 at the price 100 is in the book after the message.
\<close>

theorem upbit_zero_size_level_counterexample:
  "bids (be_book (hd (snd (snd (upbit_book Inr exact_truediv upbit_init zero_size_msg))))) 100
     = Some 0"
proof -
  have std: "Inr (bm_cd zero_size_msg) = (Inr ''KRW-BTC'' :: error + symbol)"
    by (simp add: zero_size_msg_def)
  have r: "bids (replaced_book (bm_obu zero_size_msg)) 100 = Some 0"
    by (simp add: replaced_book_def zero_size_msg_def last_wins_def)
  from upbit_book_closed [where std = Inr and msg = zero_size_msg
      and truediv = exact_truediv and self = upbit_init, OF std]
  show ?thesis by (simp add: r)
qed

section \<open>Subscription\<close>

text \<open>
  C8, as the code has it. The dYdX \<open>subscribe\<close> leaves the adapter with no book and no
  ledger, whatever it writes and whether or not it raises, and \<open>__reset\<close> done twice is
  \<open>__reset\<close> done once. The Upbit \<open>subscribe\<close> has no reset: it leaves the adapter as it is,
  and any orderbook message handled after it replaces the book of its symbol by the book
  of that message alone.
\<close>

theorem subscribe_resets_dydx_only:
  "l2_book (fst (snd (dydx_subscribe chan_std subscription self))) = Map.empty \<and>
   offsets (fst (snd (dydx_subscribe chan_std subscription self))) = Map.empty \<and>
   dydx_reset (dydx_reset self) = dydx_reset self \<and>
   fst (upbit_subscribe ticket subscription' u) = u \<and>
   (std (bm_cd msg) = Inr pair \<longrightarrow>
      upbit_l2_book (fst (snd (upbit_book std truediv
          (fst (upbit_subscribe ticket subscription' u)) msg))) pair
        = Some (replaced_book (bm_obu msg)))"
proof -
  have d: "l2_book (fst (snd (dydx_subscribe chan_std subscription self))) = Map.empty \<and>
   offsets (fst (snd (dydx_subscribe chan_std subscription self))) = Map.empty \<and>
   dydx_reset (dydx_reset self) = dydx_reset self"
    by (simp add: dydx_subscribe_def dydx_reset_def split: prod.split)
  have u: "fst (upbit_subscribe ticket subscription' u) = u"
    by (simp add: upbit_subscribe_def)
  have m: "upbit_l2_book (fst (snd (upbit_book std truediv
          (fst (upbit_subscribe ticket subscription' u)) msg))) pair
        = Some (replaced_book (bm_obu msg))" if "std (bm_cd msg) = Inr pair"
    using upbit_book_closed [of std msg pair truediv u, OF that] by (simp add: u)
  from d u m show ?thesis by blast
qed

theorem subscribe_resets_dydx_only_witness:
  "l2_book (fst (snd (dydx_subscribe Inr [(''v3_orderbook'', [''BTC-USD''])] after_scenario_A)))
     = Map.empty \<and>
   offsets (fst (snd (dydx_subscribe Inr [(''v3_orderbook'', [''BTC-USD''])] after_scenario_A)))
     = Map.empty \<and>
   fst (upbit_subscribe (0::nat) [(L2_BOOK, [''KRW-BTC''])] upbit_with_book) = upbit_with_book \<and>
   upbit_l2_book (fst (snd (upbit_book Inr exact_truediv
       (fst (upbit_subscribe (0::nat) [(L2_BOOK, [''KRW-BTC''])] upbit_with_book)) scenario_C)))
     ''KRW-BTC'' = Some \<lparr>bids = [100 \<mapsto> 2, 99 \<mapsto> 4], asks = [102 \<mapsto> 3]\<rparr>"
proof -
  have std: "Inr (bm_cd scenario_C) = (Inr ''KRW-BTC'' :: error + symbol)"
    by (simp add: scenario_C_def)
  have r: "replaced_book (bm_obu scenario_C) = \<lparr>bids = [100 \<mapsto> 2, 99 \<mapsto> 4], asks = [102 \<mapsto> 3]\<rparr>"
    by (simp add: replaced_book_def scenario_C_def last_wins_def)
  note t = subscribe_resets_dydx_only [where chan_std = Inr
      and subscription = "[(''v3_orderbook'', [''BTC-USD''])]" and self = after_scenario_A
      and ticket = "0::nat" and subscription' = "[(L2_BOOK, [''KRW-BTC''])]"
      and u = upbit_with_book and std = Inr and msg = scenario_C and pair = "''KRW-BTC''"
      and truediv = exact_truediv]
  note t1 = t [THEN conjunct1]
  note t2 = t [THEN conjunct2, THEN conjunct1]
  note t4 = t [THEN conjunct2, THEN conjunct2, THEN conjunct2, THEN conjunct1]
  note t5 = t [THEN conjunct2, THEN conjunct2, THEN conjunct2, THEN conjunct2, THEN mp, OF std]
  from t1 t2 t4 t5 show ?thesis by (simp only: r simp_thms)
qed

text \<open>
  C8, as stated, fails for Upbit: an adapter that holds a book with a bid and an ask for
  KRW-BTC holds the same book, with both levels, after \<open>subscribe\<close>.
\<close>

theorem upbit_subscribe_keeps_book_counterexample:
  "upbit_l2_book (fst (upbit_subscribe (0::nat) [(L2_BOOK, [''KRW-BTC''])] upbit_with_book))
     ''KRW-BTC'' = Some \<lparr>bids = [100 \<mapsto> 2], asks = [101 \<mapsto> 3]\<rparr>"
  by (simp add: upbit_subscribe_def upbit_with_book_def)

end
